theory Spec2Isabelle
  imports Complex_Main
begin

section \<open>JavaScript numbers\<close>

text \<open>
  The service computes with JavaScript numbers, which are IEEE 754 binary64 values. A
  number is modelled as NaN, an infinity, or a finite value given by the rational it
  denotes. Negative zero is identified with zero: the only places where the two differ
  (division, \<open>Object.is\<close>, \<open>Math.sign\<close> and the like) do not occur in the payout workflow,
  and JSON writes both as \<open>0\<close>.
\<close>

datatype number = NaN | PInf | NInf | Fin rat

text \<open>Number of binary digits of a natural number.\<close>

fun bitlen :: "nat \<Rightarrow> nat" where
  "bitlen n = (if n = 0 then 0 else Suc (bitlen (n div 2)))"

declare bitlen.simps [simp del]

text \<open>\<open>ilog2 x\<close> is the integer \<open>e\<close> with \<open>2 ^ e \<le> x < 2 ^ (e + 1)\<close>, for \<open>x > 0\<close>.\<close>

definition ilog2 :: "rat \<Rightarrow> int" where
  "ilog2 x = (if 1 \<le> x then int (bitlen (nat \<lfloor>x\<rfloor>)) - 1
              else - int (bitlen (nat (\<lceil>1 / x\<rceil> - 1))))"

definition pow2 :: "int \<Rightarrow> rat" where
  "pow2 e = (if 0 \<le> e then 2 ^ nat e else 1 / 2 ^ nat (- e))"

text \<open>Rounding a non-negative rational to the nearest integer, ties to the even one.\<close>

definition round_even :: "rat \<Rightarrow> int" where
  "round_even m =
     (let f = \<lfloor>m\<rfloor>; d = m - of_int f
      in if d < 1 / 2 then f
         else if 1 / 2 < d then f + 1
         else if even f then f else f + 1)"

text \<open>
  \<open>fl x\<close> is the binary64 value of the real number \<open>x\<close>: round to nearest, ties to even,
  with 53 significant bits, the smallest exponent \<open>-1074\<close> for subnormal values, and
  overflow to an infinity from \<open>2 ^ 1024\<close> on. \<open>fl_mag\<close> rounds a positive magnitude.
\<close>

definition fl_mag :: "rat \<Rightarrow> rat" where
  "fl_mag a =
     (let q = max (ilog2 a - 52) (- 1074)
      in of_int (round_even (a / pow2 q)) * pow2 q)"

definition fl :: "rat \<Rightarrow> number" where
  "fl x =
     (if x = 0 then Fin 0
      else let r = fl_mag \<bar>x\<bar>
           in if pow2 1024 \<le> r then (if x < 0 then NInf else PInf)
              else Fin (if x < 0 then - r else r))"

text \<open>The operators \<open>-\<close>, \<open>+\<close> and \<open><\<close> on numbers.\<close>

fun num_sub :: "number \<Rightarrow> number \<Rightarrow> number" where
  "num_sub NaN _ = NaN"
| "num_sub _ NaN = NaN"
| "num_sub PInf PInf = NaN"
| "num_sub PInf _ = PInf"
| "num_sub NInf NInf = NaN"
| "num_sub NInf _ = NInf"
| "num_sub (Fin a) PInf = NInf"
| "num_sub (Fin a) NInf = PInf"
| "num_sub (Fin a) (Fin b) = fl (a - b)"

fun num_add :: "number \<Rightarrow> number \<Rightarrow> number" where
  "num_add NaN _ = NaN"
| "num_add _ NaN = NaN"
| "num_add PInf NInf = NaN"
| "num_add PInf _ = PInf"
| "num_add NInf PInf = NaN"
| "num_add NInf _ = NInf"
| "num_add (Fin a) PInf = PInf"
| "num_add (Fin a) NInf = NInf"
| "num_add (Fin a) (Fin b) = fl (a + b)"

fun num_lt :: "number \<Rightarrow> number \<Rightarrow> bool" where
  "num_lt NaN _ = False"
| "num_lt _ NaN = False"
| "num_lt PInf _ = False"
| "num_lt NInf NInf = False"
| "num_lt NInf _ = True"
| "num_lt (Fin a) PInf = True"
| "num_lt (Fin a) NInf = False"
| "num_lt (Fin a) (Fin b) = (a < b)"

text \<open>\<open>x || 0\<close>: the falsy numbers are NaN and zero.\<close>

fun or_zero :: "number \<Rightarrow> number" where
  "or_zero NaN = Fin 0"
| "or_zero x = x"

fun num_neg :: "number \<Rightarrow> number" where
  "num_neg NaN = NaN"
| "num_neg PInf = NInf"
| "num_neg NInf = PInf"
| "num_neg (Fin a) = Fin (- a)"

section \<open>JavaScript values\<close>

text \<open>
  The scalar values that a row of the store and the arguments of the service can hold.
  Strings are lists of characters below 256.
\<close>

datatype jsval = JUndefined | JNull | JBool bool | JNum number | JStr string

subsection \<open>\<open>parseFloat\<close>\<close>

definition is_digit :: "char \<Rightarrow> bool" where
  "is_digit c = (c \<in> set ''0123456789'')"

definition digit_val :: "char \<Rightarrow> nat" where
  "digit_val c = of_char c - 48"

definition digits_val :: "string \<Rightarrow> nat" where
  "digits_val ds = foldl (\<lambda>acc c. 10 * acc + digit_val c) 0 ds"

text \<open>White space and line terminators that \<open>parseFloat\<close> skips at the start.\<close>

definition is_space :: "char \<Rightarrow> bool" where
  "is_space c = ((of_char c :: nat) \<in> {9, 10, 11, 12, 13, 32, 160})"

definition pow10 :: "int \<Rightarrow> rat" where
  "pow10 e = (if 0 \<le> e then 10 ^ nat e else 1 / 10 ^ nat (- e))"

definition unsigned_digits :: "string \<Rightarrow> int option" where
  "unsigned_digits s =
     (let ds = takeWhile is_digit s
      in if ds = [] then None else Some (int (digits_val ds)))"

fun signed_digits :: "string \<Rightarrow> int option" where
  "signed_digits [] = None"
| "signed_digits (c # r) =
     (if c = CHR ''+'' then unsigned_digits r
      else if c = CHR ''-'' then map_option uminus (unsigned_digits r)
      else unsigned_digits (c # r))"

text \<open>The exponent part is read only when a digit follows the \<open>e\<close> and its sign.\<close>

fun exponent_part :: "string \<Rightarrow> int" where
  "exponent_part [] = 0"
| "exponent_part (c # r) =
     (if c = CHR ''e'' \<or> c = CHR ''E''
      then (case signed_digits r of Some k \<Rightarrow> k | None \<Rightarrow> 0)
      else 0)"

fun fraction_part :: "string \<Rightarrow> string \<times> string" where
  "fraction_part [] = ([], [])"
| "fraction_part (c # t) =
     (if c = CHR ''.'' then (takeWhile is_digit t, dropWhile is_digit t) else ([], c # t))"

text \<open>
  The mathematical value of the longest prefix that is an unsigned decimal literal:
  digits, an optional point with further digits, an optional exponent; at least one digit
  before the exponent.
\<close>

definition unsigned_decimal :: "string \<Rightarrow> rat option" where
  "unsigned_decimal s =
     (let ip = takeWhile is_digit s;
          (fp, r) = fraction_part (dropWhile is_digit s)
      in if ip = [] \<and> fp = [] then None
         else Some (of_nat (digits_val (ip @ fp)) / 10 ^ length fp * pow10 (exponent_part r)))"

definition parse_unsigned :: "string \<Rightarrow> number" where
  "parse_unsigned s =
     (if take 8 s = ''Infinity'' then PInf
      else case unsigned_decimal s of None \<Rightarrow> NaN | Some v \<Rightarrow> fl v)"

definition parse_float_string :: "string \<Rightarrow> number" where
  "parse_float_string s =
     (case dropWhile is_space s of
        [] \<Rightarrow> NaN
      | c # r \<Rightarrow>
          if c = CHR ''+'' then parse_unsigned r
          else if c = CHR ''-'' then num_neg (parse_unsigned r)
          else parse_unsigned (c # r))"

text \<open>
  \<open>parseFloat v\<close> converts \<open>v\<close> to a string first. The strings of \<open>undefined\<close>, \<open>null\<close>
  and the booleans start with no numeral, and the string of a number reads back as that
  number.
\<close>

fun parseFloat :: "jsval \<Rightarrow> number" where
  "parseFloat JUndefined = NaN"
| "parseFloat JNull = NaN"
| "parseFloat (JBool b) = NaN"
| "parseFloat (JNum n) = n"
| "parseFloat (JStr s) = parse_float_string s"

subsection \<open>\<open>Number.prototype.toFixed\<close> with two fraction digits\<close>

definition digit_char :: "nat \<Rightarrow> char" where
  "digit_char d = ''0123456789'' ! d"

fun dec_digits :: "nat \<Rightarrow> string" where
  "dec_digits n = (if n < 10 then [digit_char n] else dec_digits (n div 10) @ [digit_char (n mod 10)])"

declare dec_digits.simps [simp del]

text \<open>
  For a magnitude below \<open>10 ^ 21\<close>: the integer \<open>n\<close> with \<open>n / 100\<close> nearest to the value,
  the larger one of two, written with a point before its last two digits.
\<close>

definition fixed2 :: "rat \<Rightarrow> string" where
  "fixed2 a =
     (let m = dec_digits (nat \<lfloor>a * 100 + 1 / 2\<rfloor>);
          z = replicate (3 - length m) CHR ''0'' @ m
      in take (length z - 2) z @ ''.'' @ drop (length z - 2) z)"

text \<open>
  From \<open>10 ^ 21\<close> on, \<open>toFixed\<close> gives the string of the number itself: the shortest
  decimal \<open>s * 10 ^ (n - k)\<close> with \<open>k\<close> digits that denotes the number, in exponent form.
  \<open>shortest_at x n k\<close> looks for \<open>s\<close> among the two neighbours of \<open>x / 10 ^ (n - k)\<close>.
\<close>

definition shortest_at :: "rat \<Rightarrow> nat \<Rightarrow> nat \<Rightarrow> nat option" where
  "shortest_at x n k =
     (let u = 10 ^ (n - k);
          lo = nat \<lfloor>x / u\<rfloor>;
          hi = lo + 1;
          ok = (\<lambda>s. 10 ^ (k - 1) \<le> s \<and> s < 10 ^ k \<and> fl (of_nat s * u) = Fin x)
      in if ok lo \<and> ok hi then Some (if x - of_nat lo * u \<le> of_nat hi * u - x then lo else hi)
         else if ok lo then Some lo
         else if ok hi then Some hi
         else None)"

fun shortest_from :: "rat \<Rightarrow> nat \<Rightarrow> nat \<Rightarrow> nat \<Rightarrow> (nat \<times> nat) option" where
  "shortest_from x n k 0 = None"
| "shortest_from x n k (Suc fuel) =
     (case shortest_at x n k of
        Some s \<Rightarrow> Some (k, s)
      | None \<Rightarrow> shortest_from x n (Suc k) fuel)"

definition to_string_large :: "rat \<Rightarrow> string" where
  "to_string_large x =
     (let d = length (dec_digits (nat \<lfloor>x\<rfloor>))
      in if fl (10 ^ d) = Fin x then ''1e+'' @ dec_digits d
         else case shortest_from x d 1 17 of
                None \<Rightarrow> []
              | Some (k, s) \<Rightarrow>
                  (let ds = dec_digits s
                   in (if k = 1 then ds else take 1 ds @ ''.'' @ drop 1 ds)
                      @ ''e+'' @ dec_digits (d - 1)))"

text \<open>The number that a decimal text denotes, with its sign if there is one.\<close>

fun decimal_value :: "string \<Rightarrow> rat option" where
  "decimal_value [] = None"
| "decimal_value (c # r) =
     (if c = CHR ''-'' then map_option uminus (unsigned_decimal r)
      else unsigned_decimal (c # r))"

text \<open>A value rounded to hundredths, a half away from zero.\<close>

definition rounded2 :: "rat \<Rightarrow> rat" where
  "rounded2 x = (if x < 0 then - 1 else 1) * (of_int \<lfloor>\<bar>x\<bar> * 100 + 1 / 2\<rfloor> / 100)"

text \<open>Digits, a point, and two digits after it, after the sign if there is one.\<close>

definition two_places :: "string \<Rightarrow> bool" where
  "two_places s =
     (let t = (if take 1 s = ''-'' then drop 1 s else s); n = length t
      in 4 \<le> n \<and> t ! (n - 3) = CHR ''.'' \<and> list_all is_digit (take (n - 3) t)
         \<and> list_all is_digit (drop (n - 2) t))"

fun toFixed2 :: "number \<Rightarrow> string" where
  "toFixed2 NaN = ''NaN''"
| "toFixed2 PInf = ''Infinity''"
| "toFixed2 NInf = ''-Infinity''"
| "toFixed2 (Fin x) =
     (if x < 0 then ''-'' else []) @
     (if 10 ^ 21 \<le> \<bar>x\<bar> then to_string_large \<bar>x\<bar> else fixed2 \<bar>x\<bar>)"

text \<open>Truthiness, as used by \<open>!\<close> and \<open>||\<close>.\<close>

fun truthy :: "jsval \<Rightarrow> bool" where
  "truthy JUndefined = False"
| "truthy JNull = False"
| "truthy (JBool b) = b"
| "truthy (JNum n) = (n \<noteq> NaN \<and> n \<noteq> Fin 0)"
| "truthy (JStr s) = (s \<noteq> [])"

text \<open>A parameter with the default value \<open>null\<close> takes it when the argument is \<open>undefined\<close>.\<close>

definition default_null :: "jsval \<Rightarrow> jsval" where
  "default_null v = (if v = JUndefined then JNull else v)"

section \<open>The store\<close>

text \<open>
  The rows of the tables \<open>payouts\<close> and \<open>partners\<close>, with the columns that the payout
  workflow reads or writes. Each table is a map from the primary key \<open>id\<close> to the row.
  The column \<open>status\<close> is a text or \<open>null\<close> (\<open>None\<close>).
\<close>

record payout =
  partner_id :: string
  amount :: jsval
  status :: "string option"
  approved_at :: jsval
  approved_by :: jsval
  processed_at :: jsval
  rejected_at :: jsval
  rejected_by :: jsval
  rejection_reason :: jsval

record partner =
  available_balance :: jsval
  business_name :: jsval
  email :: jsval
  first_name :: jsval
  last_name :: jsval
  updated_at :: jsval

text \<open>The object given to \<open>update\<close>, as the list of its properties.\<close>

datatype payout_field =
    Status string
  | ApprovedAt jsval
  | ApprovedBy jsval
  | ProcessedAt jsval
  | RejectedAt jsval
  | RejectedBy jsval
  | RejectionReason jsval

datatype partner_field = AvailableBalance jsval | UpdatedAt jsval

text \<open>
  The object travels as JSON: a property that is \<open>undefined\<close> is left out, so the column
  keeps its value, and a number that is not finite is written as \<open>null\<close>.
\<close>

fun json_set :: "jsval \<Rightarrow> jsval \<Rightarrow> jsval" where
  "json_set JUndefined old = old"
| "json_set (JNum NaN) old = JNull"
| "json_set (JNum PInf) old = JNull"
| "json_set (JNum NInf) old = JNull"
| "json_set v old = v"

fun apply_payout_field :: "payout_field \<Rightarrow> payout \<Rightarrow> payout" where
  "apply_payout_field (Status s) p = p\<lparr>status := Some s\<rparr>"
| "apply_payout_field (ApprovedAt v) p = p\<lparr>approved_at := json_set v (approved_at p)\<rparr>"
| "apply_payout_field (ApprovedBy v) p = p\<lparr>approved_by := json_set v (approved_by p)\<rparr>"
| "apply_payout_field (ProcessedAt v) p = p\<lparr>processed_at := json_set v (processed_at p)\<rparr>"
| "apply_payout_field (RejectedAt v) p = p\<lparr>rejected_at := json_set v (rejected_at p)\<rparr>"
| "apply_payout_field (RejectedBy v) p = p\<lparr>rejected_by := json_set v (rejected_by p)\<rparr>"
| "apply_payout_field (RejectionReason v) p =
     p\<lparr>rejection_reason := json_set v (rejection_reason p)\<rparr>"

fun apply_partner_field :: "partner_field \<Rightarrow> partner \<Rightarrow> partner" where
  "apply_partner_field (AvailableBalance v) q =
     q\<lparr>available_balance := json_set v (available_balance q)\<rparr>"
| "apply_partner_field (UpdatedAt v) q = q\<lparr>updated_at := json_set v (updated_at q)\<rparr>"

text \<open>Every call of the store client is recorded, in order, with what it asked for.\<close>

datatype request =
    Select string
  | UpdatePayout string "payout_field list"
  | UpdatePartner string "partner_field list"


text \<open>
  A line of the console: the level and the fixed text of the message (up to the first
  value put into it, and without the check mark that some messages start with).
\<close>

datatype level = Log | Warn | Err

record world =
  payouts :: "string \<rightharpoonup> payout"
  partners :: "string \<rightharpoonup> partner"
  requests :: "request list"
  console :: "(level \<times> string) list"

definition say :: "level \<Rightarrow> string \<Rightarrow> world \<Rightarrow> world" where
  "say l t w = w\<lparr>console := console w @ [(l, t)]\<rparr>"

text \<open>
  What lies outside the service during one call: the readings of the clock, in the order
  of the \<open>new Date()\<close> expressions, the outcome of each call of the store client (an
  error comes back as a value and leaves the tables as they are), and what the name
  \<open>emailService\<close> stands for when the notification is sent. The module imports
  \<open>sendEmail\<close> only, so unless a global of that name exists the name is undeclared.
\<close>

datatype email_service = Undeclared | Unavailable | Sends | Throws

record env =
  clock :: "nat \<Rightarrow> string"
  select_fails :: bool
  payout_update_error :: "string option"
  partner_update_error :: "string option"
  rollback_fails :: bool
  emailService :: email_service

text \<open>
  \<open>from('payouts').select('*, partners!inner(...)').eq('id', payoutId).single()\<close>: the
  payout with this id joined with its partner; no row when either is missing.
\<close>

definition select_payout :: "env \<Rightarrow> string \<Rightarrow> world \<Rightarrow> (payout \<times> partner) option \<times> world" where
  "select_payout E payoutId w =
     (let w' = w\<lparr>requests := requests w @ [Select payoutId]\<rparr>
      in if select_fails E then (None, w')
         else case payouts w payoutId of
                None \<Rightarrow> (None, w')
              | Some p \<Rightarrow>
                  (case partners w (partner_id p) of
                     None \<Rightarrow> (None, w')
                   | Some q \<Rightarrow> (Some (p, q), w')))"

text \<open>\<open>from('payouts').update(fields).eq('id', payoutId)\<close>: the only filter is the id.\<close>

definition update_payout :: "bool \<Rightarrow> string \<Rightarrow> payout_field list \<Rightarrow> world \<Rightarrow> world" where
  "update_payout fails payoutId fs w =
     (let w' = w\<lparr>requests := requests w @ [UpdatePayout payoutId fs]\<rparr>
      in if fails then w'
         else case payouts w payoutId of
                None \<Rightarrow> w'
              | Some p \<Rightarrow> w'\<lparr>payouts := (payouts w)(payoutId \<mapsto> fold apply_payout_field fs p)\<rparr>)"

definition update_partner :: "bool \<Rightarrow> string \<Rightarrow> partner_field list \<Rightarrow> world \<Rightarrow> world" where
  "update_partner fails partnerId fs w =
     (let w' = w\<lparr>requests := requests w @ [UpdatePartner partnerId fs]\<rparr>
      in if fails then w'
         else case partners w partnerId of
                None \<Rightarrow> w'
              | Some q \<Rightarrow> w'\<lparr>partners := (partners w)(partnerId \<mapsto> fold apply_partner_field fs q)\<rparr>)"

text \<open>A balance below zero.\<close>

definition negative :: "jsval \<Rightarrow> bool" where
  "negative v = num_lt (parseFloat v) (Fin 0)"

section \<open>The admin service: approving and rejecting a payout\<close>

text \<open>Every failure is \<open>throw new Error(message)\<close>; the message is all that tells them apart.\<close>

datatype error = Error string

record approval =
  message :: string
  payout_id :: string
  amount_paid :: number
  partner_name :: jsval
  previous_balance :: number
  new_balance :: number

record rejection =
  reject_message :: string
  rejected_payout_id :: string
  returned_reason :: jsval

text \<open>The text of \<open>payout.status\<close> inside a template string.\<close>

fun status_text :: "string option \<Rightarrow> string" where
  "status_text None = ''null''"
| "status_text (Some s) = s"

subsection \<open>\<open>sendPayoutApprovalEmail\<close> and \<open>sendPayoutRejectionEmail\<close>\<close>

text \<open>
  Both helpers wrap their whole body in \<open>try\<close>/\<open>catch\<close>: a missing service is a warning,
  and whatever is thrown (the reference to an undeclared name, or \<open>sendEmail\<close> itself) is
  written to the console, never thrown on. The value returned is what the caller's own
  \<open>catch\<close> would receive: nothing.
\<close>

definition send_email :: "string \<Rightarrow> env \<Rightarrow> world \<Rightarrow> string option \<times> world" where
  "send_email label E w =
     (case emailService E of
        Undeclared \<Rightarrow> (None, say Err label w)
      | Unavailable \<Rightarrow> (None, say Warn ''Email service not available'' w)
      | Sends \<Rightarrow> (None, w)
      | Throws \<Rightarrow> (None, say Err label w))"

definition sendPayoutApprovalEmail :: "env \<Rightarrow> world \<Rightarrow> string option \<times> world" where
  "sendPayoutApprovalEmail E w = send_email ''Error sending payout approval email:'' E w"

definition sendPayoutRejectionEmail :: "env \<Rightarrow> world \<Rightarrow> string option \<times> world" where
  "sendPayoutRejectionEmail E w = send_email ''Error sending payout rejection email:'' E w"

subsection \<open>\<open>approvePayout\<close>\<close>

text \<open>
  The function is a sequence of segments, each ending at an \<open>await\<close> of the store client
  or of the notification. What a segment leaves to the next one is the record of its
  local variables.
\<close>

record approve_locals =
  l_payoutId :: string
  l_adminId :: jsval
  l_payout :: payout
  l_partner :: partner
  payoutAmount :: number
  currentAvailableBalance :: number

text \<open>The outer \<open>catch\<close> writes the error to the console and throws it again.\<close>

definition approve_throw :: "string \<Rightarrow> world \<Rightarrow> (error + 'a) \<times> world" where
  "approve_throw m w = (Inl (Error m), say Err ''Error approving payout:'' w)"

text \<open>The fetch and the two checks on what was fetched.\<close>

definition approve_fetch :: "env \<Rightarrow> string \<Rightarrow> jsval \<Rightarrow> world \<Rightarrow> (error + approve_locals) \<times> world" where
  "approve_fetch E payoutId adminId w =
     (case select_payout E payoutId (say Log ''Processing payout approval: '' w) of
        (None, w1) \<Rightarrow> approve_throw ''Payout not found'' (say Err ''Payout fetch error:'' w1)
      | (Some (p, q), w1) \<Rightarrow>
          if status p \<noteq> Some ''pending''
          then approve_throw (''Cannot approve payout with status: '' @ status_text (status p)) w1
          else let amt = parseFloat (amount p);
                   bal = or_zero (parseFloat (available_balance q))
               in if num_lt bal amt
                  then approve_throw
                         (''Insufficient partner balance. Available: $'' @ toFixed2 bal
                            @ '', Required: $'' @ toFixed2 amt) w1
                  else (Inr \<lparr>l_payoutId = payoutId, l_adminId = default_null adminId,
                             l_payout = p, l_partner = q,
                             payoutAmount = amt, currentAvailableBalance = bal\<rparr>, w1))"

text \<open>1. Update payout status to approved.\<close>

definition approve_mark :: "env \<Rightarrow> approve_locals \<Rightarrow> world \<Rightarrow> (error + unit) \<times> world" where
  "approve_mark E l w =
     (let w1 = update_payout (payout_update_error E \<noteq> None) (l_payoutId l)
                 [Status ''approved'', ApprovedAt (JStr (clock E 0)), ApprovedBy (l_adminId l),
                  ProcessedAt (JStr (clock E 1))] w
      in case payout_update_error E of
           Some m \<Rightarrow>
             approve_throw (''Failed to approve payout: '' @ m)
               (say Err ''Transaction error during payout approval:'' w1)
         | None \<Rightarrow> (Inr (), w1))"

text \<open>2. Deduct amount from partner's available balance.\<close>

definition newAvailableBalance :: "approve_locals \<Rightarrow> number" where
  "newAvailableBalance l = num_sub (currentAvailableBalance l) (payoutAmount l)"

definition approve_deduct :: "env \<Rightarrow> approve_locals \<Rightarrow> world \<Rightarrow> string option \<times> world" where
  "approve_deduct E l w =
     (partner_update_error E,
      update_partner (partner_update_error E \<noteq> None) (partner_id (l_payout l))
        [AvailableBalance (JNum (newAvailableBalance l)), UpdatedAt (JStr (clock E 2))] w)"

text \<open>Rollback payout approval; the outcome of this update is not looked at.\<close>

definition approve_rollback :: "env \<Rightarrow> approve_locals \<Rightarrow> string \<Rightarrow> world \<Rightarrow> (error + approval) \<times> world" where
  "approve_rollback E l m w =
     (let w1 = update_payout (rollback_fails E) (l_payoutId l)
                 [Status ''pending'', ApprovedAt JNull, ApprovedBy JNull, ProcessedAt JNull]
                 (say Err ''Partner balance update error:'' w)
      in approve_throw (''Failed to update partner balance: '' @ m)
           (say Err ''Transaction error during payout approval:'' w1))"

text \<open>The approval notification and the result.\<close>

definition approve_notify :: "env \<Rightarrow> approve_locals \<Rightarrow> world \<Rightarrow> (error + approval) \<times> world" where
  "approve_notify E l w =
     (let w0 = say Log ''Partner '' (say Log ''Payout approved successfully: '' w);
          w2 = (case sendPayoutApprovalEmail E w0 of
                  (Some emailError, w1) \<Rightarrow> say Warn ''Failed to send payout approval email:'' w1
                | (None, w1) \<Rightarrow> w1)
      in (Inr \<lparr>message = ''Payout approved successfully'',
                payout_id = l_payoutId l,
                amount_paid = payoutAmount l,
                partner_name = business_name (l_partner l),
                previous_balance = currentAvailableBalance l,
                new_balance = newAvailableBalance l\<rparr>, w2))"

definition approvePayout :: "env \<Rightarrow> string \<Rightarrow> jsval \<Rightarrow> world \<Rightarrow> (error + approval) \<times> world" where
  "approvePayout E payoutId adminId w =
     (case approve_fetch E payoutId adminId w of
        (Inl e, w1) \<Rightarrow> (Inl e, w1)
      | (Inr l, w1) \<Rightarrow>
          (case approve_mark E l w1 of
             (Inl e, w2) \<Rightarrow> (Inl e, w2)
           | (Inr u, w2) \<Rightarrow>
               (case approve_deduct E l w2 of
                  (Some m, w3) \<Rightarrow> approve_rollback E l m w3
                | (None, w3) \<Rightarrow> approve_notify E l w3)))"

subsection \<open>\<open>rejectPayout\<close>\<close>

definition reject_throw :: "string \<Rightarrow> world \<Rightarrow> (error + 'a) \<times> world" where
  "reject_throw m w = (Inl (Error m), say Err ''Error rejecting payout:'' w)"

text \<open>\<open>rejectionReason || 'Rejected by admin'\<close>\<close>

definition reason_or_default :: "jsval \<Rightarrow> jsval" where
  "reason_or_default r = (if truthy r then r else JStr ''Rejected by admin'')"

text \<open>The parameter \<open>rejectionReason\<close> has the default value \<open>''\<close>.\<close>

definition default_empty :: "jsval \<Rightarrow> jsval" where
  "default_empty v = (if v = JUndefined then JStr [] else v)"

text \<open>The rejection notification and the result.\<close>

definition reject_notify :: "env \<Rightarrow> string \<Rightarrow> jsval \<Rightarrow> world \<Rightarrow> (error + rejection) \<times> world" where
  "reject_notify E payoutId rejectionReason w =
     (let w3 = say Log ''Payout rejected successfully: '' w;
          w5 = (case sendPayoutRejectionEmail E w3 of
                  (Some emailError, w4) \<Rightarrow> say Warn ''Failed to send payout rejection email:'' w4
                | (None, w4) \<Rightarrow> w4)
      in (Inr \<lparr>reject_message = ''Payout rejected successfully'',
                rejected_payout_id = payoutId,
                returned_reason = rejectionReason\<rparr>, w5))"

text \<open>Update payout status to rejected.\<close>

definition reject_mark :: "env \<Rightarrow> string \<Rightarrow> jsval \<Rightarrow> jsval \<Rightarrow> world \<Rightarrow> (error + rejection) \<times> world" where
  "reject_mark E payoutId adminId rejectionReason w =
     (let w2 = update_payout (payout_update_error E \<noteq> None) payoutId
                 [Status ''rejected'', RejectedAt (JStr (clock E 0)), RejectedBy adminId,
                  RejectionReason (reason_or_default rejectionReason)] w
      in (case payout_update_error E of
            Some m \<Rightarrow> reject_throw ''Failed to reject payout'' w2
          | None \<Rightarrow> reject_notify E payoutId rejectionReason w2))"

definition rejectPayout :: "env \<Rightarrow> string \<Rightarrow> jsval \<Rightarrow> jsval \<Rightarrow> world \<Rightarrow> (error + rejection) \<times> world" where
  "rejectPayout E payoutId adminId rejectionReason w =
     (case select_payout E payoutId (say Log ''Processing payout rejection: '' w) of
        (None, w1) \<Rightarrow> reject_throw ''Payout not found'' w1
      | (Some (p, q), w1) \<Rightarrow>
          (if status p \<noteq> Some ''pending''
           then reject_throw (''Cannot reject payout with status: '' @ status_text (status p)) w1
           else reject_mark E payoutId (default_null adminId) (default_empty rejectionReason) w1))"

section \<open>The admin controller\<close>

text \<open>
  The response: the HTTP status (200 unless \<open>res.status\<close> sets it) and the JSON body,
  \<open>{success: false, error}\<close> or \<open>{success: true, data, message}\<close>.
\<close>

datatype response_body = Failure string | Success approval string

record response =
  status_code :: nat
  body :: response_body

fun success :: "response_body \<Rightarrow> bool" where
  "success (Failure e) = False"
| "success (Success d m) = True"

text \<open>
  The handler reads \<open>payoutId\<close> from the route parameters (\<open>None\<close> is \<open>undefined\<close>) and
  calls the service with \<open>payoutId\<close> and \<open>adminId\<close>. The line that would declare \<open>adminId\<close>
  is a comment, and neither the handler nor the module declares the name, so it is looked
  up among the globals, given here as \<open>globals\<close>; a name that is not found throws a
  \<open>ReferenceError\<close> before the service is called. The \<open>catch\<close> answers every error
  with status 400.
\<close>

definition bad_request :: "string \<Rightarrow> response" where
  "bad_request m = \<lparr>status_code = 400, body = Failure m\<rparr>"

definition approvePayout_controller ::
  "(string \<rightharpoonup> jsval) \<Rightarrow> env \<Rightarrow> string option \<Rightarrow> world \<Rightarrow> response \<times> world" where
  "approvePayout_controller globals E params_payoutId w =
     (case params_payoutId of
        None \<Rightarrow> (bad_request ''Payout ID is required'', w)
      | Some payoutId \<Rightarrow>
          (if payoutId = [] then (bad_request ''Payout ID is required'', w)
           else (case globals ''adminId'' of
                   None \<Rightarrow>
                     (bad_request ''adminId is not defined'', say Err ''Payout approval failed:'' w)
                 | Some adminId \<Rightarrow>
                     (case approvePayout E payoutId adminId w of
                        (Inl (Error m), w1) \<Rightarrow>
                          (bad_request m, say Err ''Payout approval failed:'' w1)
                      | (Inr result, w1) \<Rightarrow>
                          (\<lparr>status_code = 200,
                            body = Success result ''Payout approved successfully''\<rparr>, w1)))))"

section \<open>Two approvals at once\<close>

text \<open>
  Node runs one segment of one call at a time, and another call can run between two
  segments of this one. A call in progress is the segment it will run next, with its
  local variables.
\<close>

datatype task =
    Start string jsval
  | Fetched approve_locals
  | Marked approve_locals
  | RollingBack approve_locals string
  | Notifying approve_locals
  | Done "error + approval"

fun step :: "env \<Rightarrow> task \<Rightarrow> world \<Rightarrow> task \<times> world" where
  "step E (Start payoutId adminId) w =
     (case approve_fetch E payoutId adminId w of
        (Inl e, w1) \<Rightarrow> (Done (Inl e), w1)
      | (Inr l, w1) \<Rightarrow> (Fetched l, w1))"
| "step E (Fetched l) w =
     (case approve_mark E l w of
        (Inl e, w1) \<Rightarrow> (Done (Inl e), w1)
      | (Inr u, w1) \<Rightarrow> (Marked l, w1))"
| "step E (Marked l) w =
     (case approve_deduct E l w of
        (Some m, w1) \<Rightarrow> (RollingBack l m, w1)
      | (None, w1) \<Rightarrow> (Notifying l, w1))"
| "step E (RollingBack l m) w = (case approve_rollback E l m w of (r, w1) \<Rightarrow> (Done r, w1))"
| "step E (Notifying l) w = (case approve_notify E l w of (r, w1) \<Rightarrow> (Done r, w1))"
| "step E (Done r) w = (Done r, w)"


text \<open>
  Two calls \<open>a\<close> and \<open>b\<close> on one store: the schedule says, segment by segment, which of
  them runs next (\<open>True\<close> for \<open>a\<close>).
\<close>

fun interleave :: "env \<Rightarrow> env \<Rightarrow> bool list \<Rightarrow> task \<times> task \<times> world \<Rightarrow> task \<times> task \<times> world" where
  "interleave Ea Eb [] c = c"
| "interleave Ea Eb (True # s) (a, b, w) =
     (case step Ea a w of (a1, w1) \<Rightarrow> interleave Ea Eb s (a1, b, w1))"
| "interleave Ea Eb (False # s) (a, b, w) =
     (case step Eb b w of (b1, w1) \<Rightarrow> interleave Ea Eb s (a, b1, w1))"

text \<open>
  What is to hold of the store whatever the calls do: no update of a partner that was
  sent carries a negative balance, and no partner row has one.
\<close>

fun field_not_negative :: "partner_field \<Rightarrow> bool" where
  "field_not_negative (AvailableBalance v) = (\<not> negative v)"
| "field_not_negative (UpdatedAt v) = True"

fun request_not_negative :: "request \<Rightarrow> bool" where
  "request_not_negative (UpdatePartner k fs) = list_all field_not_negative fs"
| "request_not_negative (Select k) = True"
| "request_not_negative (UpdatePayout k fs) = True"

definition never_negative :: "world \<Rightarrow> bool" where
  "never_negative w =
     (list_all request_not_negative (requests w)
      \<and> (\<forall>q \<in> ran (partners w). \<not> negative (available_balance q)))"

text \<open>
  A call in progress has made the check on the balance: its local balance is a number
  that is not below its local amount.
\<close>

definition checked :: "approve_locals \<Rightarrow> bool" where
  "checked l =
     (currentAvailableBalance l \<noteq> NaN
      \<and> \<not> num_lt (currentAvailableBalance l) (payoutAmount l))"

fun task_checked :: "task \<Rightarrow> bool" where
  "task_checked (Start k a) = True"
| "task_checked (Fetched l) = checked l"
| "task_checked (Marked l) = checked l"
| "task_checked (RollingBack l m) = checked l"
| "task_checked (Notifying l) = checked l"
| "task_checked (Done r) = True"

section \<open>An example store\<close>

text \<open>
  Payout \<open>P1\<close> of 100.00, pending, of partner \<open>N1\<close> whose available balance is 250.00;
  an environment in which every call succeeds.
\<close>

definition payout_P1 :: payout where
  "payout_P1 = \<lparr>partner_id = ''N1'', amount = JNum (Fin 100), status = Some ''pending'',
     approved_at = JNull, approved_by = JNull, processed_at = JNull,
     rejected_at = JNull, rejected_by = JNull, rejection_reason = JNull\<rparr>"

definition partner_N1 :: partner where
  "partner_N1 = \<lparr>available_balance = JNum (Fin 250), business_name = JStr ''Acme Travel'',
     email = JStr ''pay@acme.test'', first_name = JStr ''Ada'', last_name = JStr ''Lee'',
     updated_at = JNull\<rparr>"

definition world_1 :: world where
  "world_1 = \<lparr>payouts = [''P1'' \<mapsto> payout_P1], partners = [''N1'' \<mapsto> partner_N1],
     requests = [], console = []\<rparr>"

definition env_ok :: env where
  "env_ok = \<lparr>clock = (\<lambda>i. ''2025-01-01T00:00:00.000Z''), select_fails = False,
     payout_update_error = None, partner_update_error = None, rollback_fails = False,
     emailService = Undeclared\<rparr>"

definition payout_P2 :: payout where
  "payout_P2 = payout_P1\<lparr>status := Some ''approved''\<rparr>"

definition world_2 :: world where
  "world_2 = world_1\<lparr>payouts := [''P2'' \<mapsto> payout_P2]\<rparr>"

text \<open>
  Payout \<open>P3\<close> of 0.05 of partner \<open>N3\<close> whose available balance is 0.21; the two numbers
  are the doubles that these decimals denote.
\<close>

definition payout_P3 :: payout where
  "payout_P3 = payout_P1\<lparr>partner_id := ''N3'',
     amount := JNum (Fin (3602879701896397 / 72057594037927936))\<rparr>"

definition partner_N3 :: partner where
  "partner_N3 = partner_N1\<lparr>
     available_balance := JNum (Fin (7566047373982433 / 36028797018963968))\<rparr>"

definition world_3 :: world where
  "world_3 = \<lparr>payouts = [''P3'' \<mapsto> payout_P3], partners = [''N3'' \<mapsto> partner_N3],
     requests = [], console = []\<rparr>"

text \<open>The same store when the update of the partner fails.\<close>

definition env_deduct_fails :: env where
  "env_deduct_fails = env_ok\<lparr>partner_update_error := Some ''timeout''\<rparr>"

text \<open>Payout \<open>P4\<close> of 300.00 of partner \<open>N1\<close>, and \<open>P5\<close> of partner \<open>N5\<close> with no balance.\<close>

definition payout_P4 :: payout where
  "payout_P4 = payout_P1\<lparr>amount := JNum (Fin 300)\<rparr>"

definition world_4 :: world where
  "world_4 = world_1\<lparr>payouts := [''P4'' \<mapsto> payout_P4]\<rparr>"

definition partner_N5 :: partner where
  "partner_N5 = partner_N1\<lparr>available_balance := JNull\<rparr>"

definition world_5 :: world where
  "world_5 = world_1\<lparr>partners := [''N1'' \<mapsto> partner_N5]\<rparr>"

text \<open>What approving \<open>P1\<close> in \<open>world_1\<close> sends and returns.\<close>

definition mark_P1 :: "payout_field list" where
  "mark_P1 = [Status ''approved'', ApprovedAt (JStr ''2025-01-01T00:00:00.000Z''),
     ApprovedBy JNull, ProcessedAt (JStr ''2025-01-01T00:00:00.000Z'')]"

definition deduct_N1 :: "partner_field list" where
  "deduct_N1 = [AvailableBalance (JNum (Fin 150)), UpdatedAt (JStr ''2025-01-01T00:00:00.000Z'')]"

definition result_P1 :: approval where
  "result_P1 = \<lparr>message = ''Payout approved successfully'', payout_id = ''P1'',
     amount_paid = Fin 100, partner_name = JStr ''Acme Travel'',
     previous_balance = Fin 250, new_balance = Fin 150\<rparr>"

text \<open>Two calls take turns, segment by segment.\<close>

definition turns :: "bool list" where
  "turns = [True, False, True, False, True, False, True, False]"

text \<open>
  Payout \<open>P6\<close> of 100.25 of partner \<open>N6\<close> whose available balance is 99.50, payout \<open>P7\<close>
  of \<open>10 ^ 21\<close> of partner \<open>N1\<close>, and partner \<open>N8\<close> whose balance is the text \<open>120abc\<close>.
\<close>

definition payout_P6 :: payout where
  "payout_P6 = payout_P1\<lparr>partner_id := ''N6'', amount := JNum (Fin (401 / 4))\<rparr>"

definition partner_N6 :: partner where
  "partner_N6 = partner_N1\<lparr>available_balance := JNum (Fin (199 / 2))\<rparr>"

definition world_6 :: world where
  "world_6 = \<lparr>payouts = [''P6'' \<mapsto> payout_P6], partners = [''N6'' \<mapsto> partner_N6],
     requests = [], console = []\<rparr>"

definition payout_P7 :: payout where
  "payout_P7 = payout_P1\<lparr>amount := JNum (Fin (10 ^ 21))\<rparr>"

definition world_7 :: world where
  "world_7 = world_1\<lparr>payouts := [''P7'' \<mapsto> payout_P7]\<rparr>"

definition partner_N8 :: partner where
  "partner_N8 = partner_N1\<lparr>available_balance := JStr ''120abc''\<rparr>"

definition world_8 :: world where
  "world_8 = world_1\<lparr>partners := [''N1'' \<mapsto> partner_N8]\<rparr>"

text \<open>Partner \<open>N5\<close> without a balance, and the payout \<open>P2\<close> that is approved already.\<close>

definition world_9 :: world where
  "world_9 = \<lparr>payouts = [''P2'' \<mapsto> payout_P2], partners = [''N1'' \<mapsto> partner_N5],
     requests = [], console = []\<rparr>"

text \<open>Partner \<open>N10\<close> whose balance is the text \<open>n/a\<close>.\<close>

definition partner_N10 :: partner where
  "partner_N10 = partner_N1\<lparr>available_balance := JStr ''n/a''\<rparr>"

definition world_10 :: world where
  "world_10 = world_1\<lparr>partners := [''N1'' \<mapsto> partner_N10]\<rparr>"

section \<open>Properties of rounding\<close>

text \<open>
  The bit length and the logarithm are what their names say, so the rounding of a given
  value is found from its binade and the nearest integer multiple of the unit.
\<close>

lemma bitlen_0: "bitlen 0 = 0" by (simp add: bitlen.simps)

lemma bitlen_eqI: "2 ^ k \<le> n \<Longrightarrow> n < 2 ^ Suc k \<Longrightarrow> bitlen n = Suc k"
proof (induction k arbitrary: n)
  case 0
  then have "n = Suc 0" by simp
  then show ?case by (simp add: bitlen.simps [of "Suc 0"] bitlen_0)
next
  case (Suc k)
  have "(0::nat) < 2 ^ Suc k" by simp
  then have pos: "n \<noteq> 0" using Suc.prems(1) by linarith
  have lo: "2 ^ k \<le> n div 2" using Suc.prems(1) by simp
  have hi: "n div 2 < 2 ^ Suc k" using Suc.prems(2) by simp
  have "bitlen (n div 2) = Suc k" by (rule Suc.IH [OF lo hi])
  with pos show ?case by (simp add: bitlen.simps [of n])
qed

lemma bitlen_int_eqI:
  assumes "2 ^ k \<le> z" and "z < 2 ^ Suc k"
  shows "bitlen (nat z) = Suc k"
proof -
  have z0: "0 \<le> z" using assms(1) by (rule order_trans [rotated]) simp
  have "int (2 ^ k) \<le> z" using assms(1) by simp
  then have a: "2 ^ k \<le> nat z" using z0 by (simp only: le_nat_iff)
  have "z < int (2 ^ Suc k)" using assms(2) by simp
  then have b: "nat z < 2 ^ Suc k" using z0 by (simp only: nat_less_iff)
  from a b show ?thesis by (rule bitlen_eqI)
qed

lemma pow2_pos: "0 < pow2 e" by (simp add: pow2_def)

lemma ilog2_eqI:
  assumes lo: "pow2 e \<le> x" and hi: "x < pow2 (e + 1)"
  shows "ilog2 x = e"
proof (cases "0 \<le> e")
  case True
  then obtain k where e: "e = int k" using nonneg_int_cases by blast
  have lo': "(2::rat) ^ k \<le> x" using lo by (simp add: e pow2_def)
  have hi': "x < 2 ^ Suc k" using hi by (simp add: e pow2_def nat_add_distrib)
  have "(1::rat) \<le> 2 ^ k" by simp
  then have x1: "1 \<le> x" using lo' by (rule order_trans)
  have fl_lo: "(2::int) ^ k \<le> \<lfloor>x\<rfloor>"
    using lo' by (simp add: le_floor_iff)
  have fl_hi: "\<lfloor>x\<rfloor> < (2::int) ^ Suc k"
    using hi' by (simp add: floor_less_iff)
  have "bitlen (nat \<lfloor>x\<rfloor>) = Suc k" using fl_lo fl_hi by (rule bitlen_int_eqI)
  with x1 show ?thesis by (simp add: ilog2_def e)
next
  case False
  then have "0 < - e" by simp
  then obtain k where "- e = int (Suc k)"
    using zero_less_imp_eq_int [of "- e"] by (metis Suc_pred' of_nat_0_less_iff)
  then have e: "e = - int (Suc k)" by simp
  have xpos: "0 < x" using lo pow2_pos [of e] by simp
  have ne: "nat (int k + 1) = Suc k" by simp
  have lo': "1 / 2 ^ Suc k \<le> x" using lo by (simp add: e pow2_def ne del: power_Suc)
  have hi': "x < 1 / 2 ^ k" using hi by (cases k) (simp_all add: e pow2_def nat_add_distrib)
  have x1: "x < 1"
  proof -
    have "(1::rat) / 2 ^ k \<le> 1" by simp
    with hi' show ?thesis by (rule less_le_trans)
  qed
  have y_hi: "1 / x \<le> 2 ^ Suc k"
    using lo' xpos by (simp add: field_simps del: power_Suc)
  have y_lo: "2 ^ k < 1 / x"
    using hi' xpos by (simp add: field_simps)
  have c_hi: "\<lceil>1 / x\<rceil> \<le> (2::int) ^ Suc k"
    using y_hi by (simp add: ceiling_le_iff)
  have c_lo: "(2::int) ^ k < \<lceil>1 / x\<rceil>"
    using y_lo by (simp add: less_ceiling_iff)
  have a: "(2::int) ^ k \<le> \<lceil>1 / x\<rceil> - 1" using c_lo by simp
  have b: "\<lceil>1 / x\<rceil> - 1 < (2::int) ^ Suc k" using c_hi by simp
  have "bitlen (nat (\<lceil>1 / x\<rceil> - 1)) = Suc k" using a b by (rule bitlen_int_eqI)
  with x1 show ?thesis by (simp add: ilog2_def e)
qed

lemma round_even_eqI:
  assumes "of_int n - 1 / 2 < m" and "m < of_int n + 1 / 2"
  shows "round_even m = n"
proof -
  consider "of_int n \<le> m" | "m < of_int n" by linarith
  then show ?thesis
  proof cases
    case 1
    then have f: "\<lfloor>m\<rfloor> = n" using assms(2) by (simp add: floor_unique)
    then show ?thesis using assms(2) by (simp add: round_even_def Let_def)
  next
    case 2
    then have f: "\<lfloor>m\<rfloor> = n - 1" using assms(1) by (simp add: floor_unique)
    then show ?thesis using assms(1) 2 by (simp add: round_even_def Let_def)
  qed
qed

lemma round_even_tie:
  assumes "m = of_int n + 1 / 2"
  shows "round_even m = (if even n then n else n + 1)"
proof -
  have f: "\<lfloor>m\<rfloor> = n" using assms by (simp add: floor_unique)
  then show ?thesis using assms by (simp add: round_even_def Let_def)
qed

lemma fl_mag_eqI:
  assumes "pow2 e \<le> a" and "a < pow2 (e + 1)"
    and "round_even (a / pow2 (max (e - 52) (- 1074))) = n"
  shows "fl_mag a = of_int n * pow2 (max (e - 52) (- 1074))"
proof -
  have "ilog2 a = e" using assms(1,2) by (rule ilog2_eqI)
  then show ?thesis using assms(3) by (simp add: fl_mag_def Let_def)
qed

lemma fl_finI:
  assumes "x \<noteq> 0" and "fl_mag \<bar>x\<bar> = r" and "r \<le> 2 ^ 1000"
  shows "fl x = Fin (if x < 0 then - r else r)"
proof -
  have "(2::rat) ^ 1000 < 2 ^ 1024" by (rule power_strict_increasing) simp_all
  with assms(3) have "\<not> pow2 1024 \<le> r" by (simp add: pow2_def)
  with assms(1,2) show ?thesis by (simp add: fl_def Let_def)
qed

lemma round_even_int: "round_even (of_int n) = n"
  by (rule round_even_eqI) simp_all

lemma round_even_nonneg: "0 \<le> m \<Longrightarrow> 0 \<le> round_even m"
  by (simp add: round_even_def Let_def)

lemma fl_mag_nonneg: "0 \<le> a \<Longrightarrow> 0 \<le> fl_mag a"
  using pow2_pos [of "max (ilog2 a - 52) (- 1074)"]
  by (simp add: fl_mag_def Let_def round_even_nonneg)

lemma fl_nonneg: "0 \<le> x \<Longrightarrow> fl x = PInf \<or> (\<exists>r. fl x = Fin r \<and> 0 \<le> r)"
  using fl_mag_nonneg [of "\<bar>x\<bar>"] by (simp add: fl_def Let_def)

lemma fl_150: "fl 150 = Fin 150"
proof -
  have "round_even (150 / pow2 (max (7 - 52) (- 1074))) = 5277655813324800"
    using round_even_int [of 5277655813324800] by (simp add: pow2_def)
  then have "fl_mag 150 = 150"
    using fl_mag_eqI [of 7 150 5277655813324800] by (simp add: pow2_def)
  then show ?thesis using fl_finI [of 150 150] by simp
qed

text \<open>
  The doubles of the decimals 0.21, 0.05 and 0.16, the difference of the first two, and
  the sum of that difference and the second.
\<close>

lemma fl_021: "fl (21 / 100) = Fin (7566047373982433 / 36028797018963968)"
proof -
  have "round_even (21 / 100 / pow2 (max (- 3 - 52) (- 1074))) = 7566047373982433"
    by (rule round_even_eqI) (simp_all add: pow2_def)
  then have "fl_mag (21 / 100) = 7566047373982433 / 36028797018963968"
    using fl_mag_eqI [of "- 3" "21 / 100" 7566047373982433] by (simp add: pow2_def)
  then show ?thesis
    using fl_finI [of "21 / 100" "7566047373982433 / 36028797018963968"] by simp
qed

lemma fl_005: "fl (1 / 20) = Fin (3602879701896397 / 72057594037927936)"
proof -
  have "round_even (1 / 20 / pow2 (max (- 5 - 52) (- 1074))) = 7205759403792794"
    by (rule round_even_eqI) (simp_all add: pow2_def)
  then have "fl_mag (1 / 20) = 3602879701896397 / 72057594037927936"
    using fl_mag_eqI [of "- 5" "1 / 20" 7205759403792794] by (simp add: pow2_def)
  then show ?thesis
    using fl_finI [of "1 / 20" "3602879701896397 / 72057594037927936"] by simp
qed

lemma fl_016: "fl (4 / 25) = Fin (5764607523034235 / 36028797018963968)"
proof -
  have "round_even (4 / 25 / pow2 (max (- 3 - 52) (- 1074))) = 5764607523034235"
    by (rule round_even_eqI) (simp_all add: pow2_def)
  then have "fl_mag (4 / 25) = 5764607523034235 / 36028797018963968"
    using fl_mag_eqI [of "- 3" "4 / 25" 5764607523034235] by (simp add: pow2_def)
  then show ?thesis
    using fl_finI [of "4 / 25" "5764607523034235 / 36028797018963968"] by simp
qed

lemma fl_cents_sub: "fl (11529215046068469 / 72057594037927936) = Fin (2882303761517117 / 18014398509481984)"
proof -
  have "round_even (11529215046068469 / 72057594037927936 / pow2 (max (- 3 - 52) (- 1074))) = 5764607523034234"
    using round_even_tie [of _ 5764607523034234] by (simp add: pow2_def)
  then have "fl_mag (11529215046068469 / 72057594037927936) = 2882303761517117 / 18014398509481984"
    using fl_mag_eqI [of "- 3" "11529215046068469 / 72057594037927936" 5764607523034234] by (simp add: pow2_def)
  then show ?thesis
    using fl_finI [of "11529215046068469 / 72057594037927936" "2882303761517117 / 18014398509481984"] by simp
qed

lemma fl_cents_add: "fl (15132094747964865 / 72057594037927936) = Fin (236438980436951 / 1125899906842624)"
proof -
  have "round_even (15132094747964865 / 72057594037927936 / pow2 (max (- 3 - 52) (- 1074))) = 7566047373982432"
    using round_even_tie [of _ 7566047373982432] by (simp add: pow2_def)
  then have "fl_mag (15132094747964865 / 72057594037927936) = 236438980436951 / 1125899906842624"
    using fl_mag_eqI [of "- 3" "15132094747964865 / 72057594037927936" 7566047373982432] by (simp add: pow2_def)
  then show ?thesis
    using fl_finI [of "15132094747964865 / 72057594037927936" "236438980436951 / 1125899906842624"] by simp
qed

lemma parse_021: "parseFloat (JStr ''0.21'') = Fin (7566047373982433 / 36028797018963968)"
  by (simp add: parse_float_string_def is_space_def parse_unsigned_def unsigned_decimal_def
      is_digit_def digits_val_def digit_val_def pow10_def fl_021)

lemma parse_005: "parseFloat (JStr ''0.05'') = Fin (3602879701896397 / 72057594037927936)"
  by (simp add: parse_float_string_def is_space_def parse_unsigned_def unsigned_decimal_def
      is_digit_def digits_val_def digit_val_def pow10_def fl_005)

section \<open>Properties of the number formats\<close>

lemma dec_digits_small: "n < 10 \<Longrightarrow> dec_digits n = [digit_char n]"
  by (simp add: dec_digits.simps [of n])

lemma dec_digits_step: "10 \<le> n \<Longrightarrow> dec_digits n = dec_digits (n div 10) @ [digit_char (n mod 10)]"
  by (simp add: dec_digits.simps [of n])

lemma fixed2_of_nat:
  "fixed2 (of_nat k) =
     (let z = replicate (3 - length (dec_digits (k * 100))) CHR ''0'' @ dec_digits (k * 100)
      in take (length z - 2) z @ ''.'' @ drop (length z - 2) z)"
proof -
  have "\<lfloor>(of_nat k :: rat) * 100 + 1 / 2\<rfloor> = int (k * 100)"
    by (rule floor_unique) simp_all
  then have "nat \<lfloor>(of_nat k :: rat) * 100 + 1 / 2\<rfloor> = k * 100"
    by (simp only: nat_int)
  then show ?thesis unfolding fixed2_def Let_def by (simp only:)
qed

lemma fixed2_0: "fixed2 0 = ''0.00''"
  using fixed2_of_nat [of 0] by (simp add: dec_digits_small digit_char_def)

lemma fixed2_250: "fixed2 250 = ''250.00''"
  using fixed2_of_nat [of 250] by (simp add: dec_digits_small dec_digits_step digit_char_def)

lemma fixed2_300: "fixed2 300 = ''300.00''"
  using fixed2_of_nat [of 300] by (simp add: dec_digits_small dec_digits_step digit_char_def)

lemma fixed2_100: "fixed2 100 = ''100.00''"
  using fixed2_of_nat [of 100] by (simp add: dec_digits_small dec_digits_step digit_char_def)

lemma parse_na: "parse_float_string ''n/a'' = NaN"
  by (simp add: parse_float_string_def is_space_def parse_unsigned_def unsigned_decimal_def
      is_digit_def)

lemma is_digit_digit_char: "d < 10 \<Longrightarrow> is_digit (digit_char d)"
proof -
  assume "d < 10"
  then have "d < length ''0123456789''" by simp
  then have "''0123456789'' ! d \<in> set ''0123456789''" by (rule nth_mem)
  then show ?thesis by (simp only: is_digit_def digit_char_def)
qed

lemma dec_digits_digits: "list_all is_digit (dec_digits n) \<and> dec_digits n \<noteq> []"
proof (induction n rule: dec_digits.induct)
  case (1 n)
  show ?case
  proof (cases "n < 10")
    case True
    then show ?thesis by (simp add: dec_digits.simps [of n] is_digit_digit_char)
  next
    case False
    have "n mod 10 < 10" by simp
    then have "is_digit (digit_char (n mod 10))" by (rule is_digit_digit_char)
    with False 1 show ?thesis by (simp add: dec_digits.simps [of n])
  qed
qed

lemma minus_not_digit: "\<not> is_digit CHR ''-''"
  by (simp add: is_digit_def)

lemma fixed2_shape:
  "\<exists>ip d1 d2. fixed2 a = ip @ [CHR ''.'', d1, d2] \<and> ip \<noteq> [] \<and> list_all is_digit ip
       \<and> is_digit d1 \<and> is_digit d2"
proof -
  define m where "m = dec_digits (nat \<lfloor>a * 100 + 1 / 2\<rfloor>)"
  define z where "z = replicate (3 - length m) CHR ''0'' @ m"
  define ip where "ip = take (length z - 2) z"
  define fp where "fp = drop (length z - 2) z"
  have dm: "list_all is_digit m" by (simp add: m_def dec_digits_digits)
  have d0: "is_digit CHR ''0''" by (simp add: is_digit_def)
  have dz: "list_all is_digit z" using dm d0 by (auto simp: z_def list_all_iff)
  have lz: "3 \<le> length z" by (simp add: z_def)
  have "length fp = 2" using lz by (simp add: fp_def)
  then obtain d1 d2 where fp: "fp = [d1, d2]"
    by (cases fp; cases "tl fp") auto
  have "set fp \<subseteq> set z" by (simp add: fp_def set_drop_subset)
  then have dd: "is_digit d1 \<and> is_digit d2" using dz by (auto simp: fp list_all_iff)
  have "set ip \<subseteq> set z" by (simp add: ip_def set_take_subset)
  then have di: "list_all is_digit ip" using dz by (auto simp: list_all_iff)
  have ne: "ip \<noteq> []" using lz by (auto simp: ip_def)
  have "fixed2 a = ip @ ''.'' @ fp"
    by (simp add: fixed2_def Let_def m_def z_def ip_def fp_def)
  then have "fixed2 a = ip @ [CHR ''.'', d1, d2]" by (simp add: fp)
  with ne di dd show ?thesis by blast
qed

lemma two_places_digits:
  assumes "ip \<noteq> []" and "list_all is_digit ip" and "is_digit d1" and "is_digit d2"
  shows "two_places (ip @ [CHR ''.'', d1, d2])"
    and "two_places (''-'' @ ip @ [CHR ''.'', d1, d2])"
proof -
  let ?t = "ip @ [CHR ''.'', d1, d2]"
  obtain c r where ip: "ip = c # r" using assms(1) by (cases ip) auto
  have "is_digit c" using assms(2) by (simp add: ip)
  then have cm: "c \<noteq> CHR ''-''" using minus_not_digit by auto
  have len: "length ?t - 3 = length ip" "length ?t - 2 = length ip + 1" "4 \<le> length ?t"
    by (simp_all add: ip)
  have dot: "?t ! length ip = CHR ''.''" by (simp add: nth_append)
  have tk: "take (length ip) ?t = ip" by simp
  have dr: "drop (length ip + 1) ?t = [d1, d2]" by simp
  have core: "4 \<le> length ?t \<and> ?t ! (length ?t - 3) = CHR ''.''
      \<and> list_all is_digit (take (length ?t - 3) ?t) \<and> list_all is_digit (drop (length ?t - 2) ?t)"
    unfolding len(1,2) dot tk dr using len(3) assms(2-4) by simp
  have nm: "take 1 ?t \<noteq> ''-''" using cm by (simp add: ip)
  have "(if take 1 ?t = ''-'' then drop 1 ?t else ?t) = ?t" using nm by simp
  then show "two_places ?t" using core unfolding two_places_def Let_def by presburger
  have "(if take 1 (''-'' @ ?t) = ''-'' then drop 1 (''-'' @ ?t) else ''-'' @ ?t) = ?t" by simp
  then show "two_places (''-'' @ ?t)" using core unfolding two_places_def Let_def by presburger
qed

lemma toFixed2_two_places: "\<bar>x\<bar> < 10 ^ 21 \<Longrightarrow> two_places (toFixed2 (Fin x))"
proof -
  assume small: "\<bar>x\<bar> < 10 ^ 21"
  obtain ip d1 d2 where z: "fixed2 \<bar>x\<bar> = ip @ [CHR ''.'', d1, d2]"
    "ip \<noteq> []" "list_all is_digit ip" "is_digit d1" "is_digit d2"
    using fixed2_shape [of "\<bar>x\<bar>"] by blast
  show ?thesis
  proof (cases "x < 0")
    case True
    then have "toFixed2 (Fin x) = ''-'' @ fixed2 \<bar>x\<bar>" using small by simp
    then show ?thesis using two_places_digits(2) [OF z(2-5)] by (simp only: z(1))
  next
    case False
    then have "toFixed2 (Fin x) = fixed2 \<bar>x\<bar>" using small by simp
    then show ?thesis using two_places_digits(1) [OF z(2-5)] by (simp only: z(1))
  qed
qed

lemma digit_val_digit_char: "d < 10 \<Longrightarrow> digit_val (digit_char d) = d"
proof -
  assume "d < 10"
  then consider "d = 0" | "d = 1" | "d = 2" | "d = 3" | "d = 4" | "d = 5" | "d = 6"
    | "d = 7" | "d = 8" | "d = 9" by atomize_elim arith
  then show ?thesis by cases (simp_all add: digit_val_def digit_char_def)
qed

lemma digits_val_snoc: "digits_val (ds @ [c]) = 10 * digits_val ds + digit_val c"
  by (simp add: digits_val_def)

lemma digits_val_dec_digits: "digits_val (dec_digits n) = n"
proof (induction n rule: dec_digits.induct)
  case (1 n)
  show ?case
  proof (cases "n < 10")
    case True
    then show ?thesis
      by (simp add: dec_digits_small digits_val_def digit_val_digit_char)
  next
    case False
    have "n mod 10 < 10" by simp
    then have "digit_val (digit_char (n mod 10)) = n mod 10" by (rule digit_val_digit_char)
    with False 1 show ?thesis by (simp add: dec_digits_step digits_val_snoc)
  qed
qed

lemma digits_val_zeros: "digits_val (replicate k CHR ''0'' @ m) = digits_val m"
proof -
  have "foldl (\<lambda>acc c. 10 * acc + digit_val c) 0 (replicate k CHR ''0'') = 0"
    by (induction k) (simp_all add: digit_val_def)
  then show ?thesis by (simp add: digits_val_def)
qed

lemma dot_not_digit: "\<not> is_digit CHR ''.''"
  by (simp add: is_digit_def)

lemma unsigned_decimal_point:
  assumes "ip \<noteq> []" and "list_all is_digit ip" and "is_digit d1" and "is_digit d2"
  shows "unsigned_decimal (ip @ [CHR ''.'', d1, d2]) = Some (of_nat (digits_val (ip @ [d1, d2])) / 100)"
proof -
  have all: "\<forall>x \<in> set ip. is_digit x" using assms(2) by (simp add: list_all_iff)
  have tk: "takeWhile is_digit (ip @ [CHR ''.'', d1, d2]) = ip"
    using all dot_not_digit by (simp add: takeWhile_append2)
  have dr: "dropWhile is_digit (ip @ [CHR ''.'', d1, d2]) = [CHR ''.'', d1, d2]"
    using all dot_not_digit by (simp add: dropWhile_append2)
  have fp: "fraction_part [CHR ''.'', d1, d2] = ([d1, d2], [])"
    using assms(3,4) by simp
  show ?thesis
    unfolding unsigned_decimal_def tk dr fp using assms(1) by (simp add: pow10_def)
qed

lemma fixed2_value:
  assumes "0 \<le> a"
  shows "unsigned_decimal (fixed2 a) = Some (of_int \<lfloor>a * 100 + 1 / 2\<rfloor> / 100)"
proof -
  define m where "m = dec_digits (nat \<lfloor>a * 100 + 1 / 2\<rfloor>)"
  define z where "z = replicate (3 - length m) CHR ''0'' @ m"
  define ip where "ip = take (length z - 2) z"
  define fp where "fp = drop (length z - 2) z"
  have dm: "list_all is_digit m" by (simp add: m_def dec_digits_digits)
  have d0: "is_digit CHR ''0''" by (simp add: is_digit_def)
  have dz: "list_all is_digit z" using dm d0 by (auto simp: z_def list_all_iff)
  have lz: "3 \<le> length z" by (simp add: z_def)
  have "length fp = 2" using lz by (simp add: fp_def)
  then obtain d1 d2 where fp: "fp = [d1, d2]"
    by (cases fp; cases "tl fp") auto
  have "set fp \<subseteq> set z" by (simp add: fp_def set_drop_subset)
  then have dd: "is_digit d1" "is_digit d2" using dz by (auto simp: fp list_all_iff)
  have "set ip \<subseteq> set z" by (simp add: ip_def set_take_subset)
  then have di: "list_all is_digit ip" using dz by (auto simp: list_all_iff)
  have ne: "ip \<noteq> []" using lz by (auto simp: ip_def)
  have split: "ip @ fp = z" by (simp add: ip_def fp_def)
  have "fixed2 a = ip @ ''.'' @ fp"
    by (simp add: fixed2_def Let_def m_def z_def ip_def fp_def)
  then have f: "fixed2 a = ip @ [CHR ''.'', d1, d2]" by (simp add: fp)
  have "digits_val (ip @ [d1, d2]) = digits_val z" using split by (simp add: fp)
  also have "\<dots> = digits_val m" by (simp add: z_def digits_val_zeros)
  also have "\<dots> = nat \<lfloor>a * 100 + 1 / 2\<rfloor>" by (simp add: m_def digits_val_dec_digits)
  finally have v: "digits_val (ip @ [d1, d2]) = nat \<lfloor>a * 100 + 1 / 2\<rfloor>" .
  have nn: "0 \<le> \<lfloor>a * 100 + 1 / 2\<rfloor>" using assms by simp
  have "(of_nat (nat \<lfloor>a * 100 + 1 / 2\<rfloor>) :: rat) = of_int \<lfloor>a * 100 + 1 / 2\<rfloor>"
    using nn by simp
  then show ?thesis
    using unsigned_decimal_point [OF ne di dd] by (simp only: f v)
qed

lemma fixed2_not_minus: "fixed2 a = c # r \<Longrightarrow> c \<noteq> CHR ''-''"
proof -
  assume a: "fixed2 a = c # r"
  obtain ip d1 d2 where s: "fixed2 a = ip @ [CHR ''.'', d1, d2]" "ip \<noteq> []" "list_all is_digit ip"
    using fixed2_shape [of a] by blast
  obtain c' r' where ip: "ip = c' # r'" using s(2) by (cases ip) auto
  have "c = c'" using a s(1) by (simp add: ip)
  moreover have "is_digit c'" using s(3) by (simp add: ip)
  ultimately show ?thesis using minus_not_digit by auto
qed

lemma toFixed2_value:
  assumes "\<bar>x\<bar> < 10 ^ 21"
  shows "decimal_value (toFixed2 (Fin x))
           = Some ((if x < 0 then - 1 else 1) * (of_int \<lfloor>\<bar>x\<bar> * 100 + 1 / 2\<rfloor> / 100))"
proof (cases "x < 0")
  case True
  have "toFixed2 (Fin x) = CHR ''-'' # fixed2 \<bar>x\<bar>" using True assms by simp
  then show ?thesis using True fixed2_value [of "\<bar>x\<bar>"] by simp
next
  case False
  obtain c r where f: "fixed2 \<bar>x\<bar> = c # r"
    using fixed2_shape [of "\<bar>x\<bar>"] by (cases "fixed2 \<bar>x\<bar>") auto
  have nm: "c \<noteq> CHR ''-''" using f by (rule fixed2_not_minus)
  have "toFixed2 (Fin x) = c # r" using False assms f by simp
  then have "decimal_value (toFixed2 (Fin x)) = unsigned_decimal (fixed2 \<bar>x\<bar>)"
    using nm by (simp add: f)
  then show ?thesis using False fixed2_value [of "\<bar>x\<bar>"] by simp
qed

lemma round_half_close: "\<bar>of_int \<lfloor>y * 100 + 1 / 2\<rfloor> / 100 - y\<bar> \<le> (1 / 200 :: rat)"
proof -
  define r :: rat where "r = of_int \<lfloor>y * 100 + 1 / 2\<rfloor>"
  have a: "r \<le> y * 100 + 1 / 2" unfolding r_def by (rule of_int_floor_le)
  have b: "y * 100 + 1 / 2 < r + 1" unfolding r_def by linarith
  have "\<bar>r / 100 - y\<bar> \<le> 1 / 200" using a b by linarith
  then show ?thesis by (simp only: r_def)
qed

lemma fixed2_cents:
  "fixed2 (of_nat k / 100) =
     (let z = replicate (3 - length (dec_digits k)) CHR ''0'' @ dec_digits k
      in take (length z - 2) z @ ''.'' @ drop (length z - 2) z)"
proof -
  have "\<lfloor>(of_nat k / 100 :: rat) * 100 + 1 / 2\<rfloor> = int k"
    by (rule floor_unique) simp_all
  then have "nat \<lfloor>(of_nat k / 100 :: rat) * 100 + 1 / 2\<rfloor> = k"
    by (simp only: nat_int)
  then show ?thesis unfolding fixed2_def Let_def by (simp only:)
qed

lemma fixed2_9950: "fixed2 (199 / 2) = ''99.50''"
  using fixed2_cents [of 9950] by (simp add: dec_digits_small dec_digits_step digit_char_def)

lemma fixed2_10025: "fixed2 (401 / 4) = ''100.25''"
  using fixed2_cents [of 10025] by (simp add: dec_digits_small dec_digits_step digit_char_def)

lemma fl_1e21: "fl 1000000000000000000000 = Fin 1000000000000000000000"
proof -
  have "round_even (1000000000000000000000 / pow2 (max (69 - 52) (- 1074))) = 7629394531250000"
    using round_even_int [of 7629394531250000] by (simp add: pow2_def)
  then have "fl_mag 1000000000000000000000 = 1000000000000000000000"
    using fl_mag_eqI [of 69 1000000000000000000000 7629394531250000] by (simp add: pow2_def)
  then show ?thesis using fl_finI [of 1000000000000000000000 1000000000000000000000] by simp
qed

lemma fl_2e21: "fl 2000000000000000000000 = Fin 2000000000000000000000"
proof -
  have "round_even (2000000000000000000000 / pow2 (max (70 - 52) (- 1074))) = 7629394531250000"
    using round_even_int [of 7629394531250000] by (simp add: pow2_def)
  then have "fl_mag 2000000000000000000000 = 2000000000000000000000"
    using fl_mag_eqI [of 70 2000000000000000000000 7629394531250000] by (simp add: pow2_def)
  then show ?thesis using fl_finI [of 2000000000000000000000 2000000000000000000000] by simp
qed

lemma fl_1e22: "fl 10000000000000000000000 = Fin 10000000000000000000000"
proof -
  have "round_even (10000000000000000000000 / pow2 (max (73 - 52) (- 1074))) = 4768371582031250"
    using round_even_int [of 4768371582031250] by (simp add: pow2_def)
  then have "fl_mag 10000000000000000000000 = 10000000000000000000000"
    using fl_mag_eqI [of 73 10000000000000000000000 4768371582031250] by (simp add: pow2_def)
  then show ?thesis using fl_finI [of 10000000000000000000000 10000000000000000000000] by simp
qed

lemma dec_digits_1e21: "dec_digits 1000000000000000000000 = ''1000000000000000000000''"
  by (simp add: dec_digits_small dec_digits_step digit_char_def)

lemma to_string_large_1e21: "to_string_large 1000000000000000000000 = ''1e+21''"
proof -
  have s: "shortest_at 1000000000000000000000 22 1 = Some 1"
    by (simp add: shortest_at_def Let_def fl_1e21 fl_2e21)
  have d: "dec_digits 21 = ''21''" "dec_digits 1 = ''1''" "dec_digits 22 = ''22''"
    by (simp_all add: dec_digits_small dec_digits_step digit_char_def)
  have e: "(17::nat) = Suc 16" by simp
  have f0: "shortest_from 1000000000000000000000 22 1 (Suc 16) = Some (1, 1)"
    unfolding shortest_from.simps(2) s by simp
  have f: "shortest_from 1000000000000000000000 22 1 17 = Some (1, 1)"
    unfolding e by (rule f0)
  have l: "length (dec_digits (nat \<lfloor>1000000000000000000000 :: rat\<rfloor>)) = 22"
    by (simp add: dec_digits_1e21)
  show ?thesis
    unfolding to_string_large_def Let_def l
    by (simp add: fl_1e22 f [unfolded One_nat_def] d d [unfolded One_nat_def])
qed

lemma toFixed2_1e21: "toFixed2 (Fin (10 ^ 21)) = ''1e+21''"
  by (simp add: to_string_large_1e21)

lemma rounded2_close: "\<bar>rounded2 x - x\<bar> \<le> 1 / 200"
proof (cases "x < 0")
  case True
  define r :: rat where "r = of_int \<lfloor>(- x) * 100 + 1 / 2\<rfloor> / 100"
  have "\<bar>r - (- x)\<bar> \<le> 1 / 200" unfolding r_def by (rule round_half_close)
  moreover have "rounded2 x = - r" using True by (simp add: rounded2_def r_def)
  ultimately show ?thesis by linarith
next
  case False
  define r :: rat where "r = of_int \<lfloor>x * 100 + 1 / 2\<rfloor> / 100"
  have "\<bar>r - x\<bar> \<le> 1 / 200" unfolding r_def by (rule round_half_close)
  moreover have "rounded2 x = r" using False by (simp add: rounded2_def r_def)
  ultimately show ?thesis by linarith
qed

lemma rounded2_cents: "rounded2 (of_nat k / 100) = of_nat k / 100"
proof -
  have "\<lfloor>(of_nat k / 100 :: rat) * 100 + 1 / 2\<rfloor> = int k"
    by (rule floor_unique) simp_all
  then show ?thesis by (simp add: rounded2_def)
qed

lemma toFixed2_rounded:
  assumes "\<bar>x\<bar> < 10 ^ 21"
  shows "two_places (toFixed2 (Fin x)) \<and> decimal_value (toFixed2 (Fin x)) = Some (rounded2 x)
       \<and> \<bar>rounded2 x - x\<bar> \<le> 1 / 200"
proof -
  have "decimal_value (toFixed2 (Fin x)) = Some (rounded2 x)"
    using toFixed2_value [OF assms] by (simp only: rounded2_def)
  then show ?thesis
    using toFixed2_two_places [OF assms] rounded2_close [of x] by blast
qed

text \<open>A text with no numeral at its start has no number for \<open>parseFloat\<close>.\<close>

lemma parse_no_numeral:
  assumes "dropWhile is_space s = [] \<or> hd (dropWhile is_space s) \<notin> set ''+-.0123456789I''"
  shows "parse_float_string s = NaN"
proof (cases "dropWhile is_space s")
  case Nil
  show ?thesis unfolding parse_float_string_def Nil by simp
next
  case (Cons c r)
  then have c: "c \<notin> set ''+-.0123456789I''" using assms by simp
  then have nd: "\<not> is_digit c" by (simp add: is_digit_def)
  have "take 8 (c # r) \<noteq> ''Infinity''" using c by auto
  moreover have "unsigned_decimal (c # r) = None"
    using c nd by (simp add: unsigned_decimal_def)
  ultimately have "parse_unsigned (c # r) = NaN" by (simp add: parse_unsigned_def)
  then show ?thesis unfolding parse_float_string_def Cons using c by simp
qed

lemma fl_120: "fl 120 = Fin 120"
proof -
  have "round_even (120 / pow2 (max (6 - 52) (- 1074))) = 8444249301319680"
    using round_even_int [of 8444249301319680] by (simp add: pow2_def)
  then have "fl_mag 120 = 120"
    using fl_mag_eqI [of 6 120 8444249301319680] by (simp add: pow2_def)
  then show ?thesis using fl_finI [of 120 120] by simp
qed

lemma fl_20: "fl 20 = Fin 20"
proof -
  have "round_even (20 / pow2 (max (4 - 52) (- 1074))) = 5629499534213120"
    using round_even_int [of 5629499534213120] by (simp add: pow2_def)
  then have "fl_mag 20 = 20"
    using fl_mag_eqI [of 4 20 5629499534213120] by (simp add: pow2_def)
  then show ?thesis using fl_finI [of 20 20] by simp
qed

lemma parse_120abc: "parse_float_string ''120abc'' = Fin 120"
  by (simp add: parse_float_string_def is_space_def parse_unsigned_def unsigned_decimal_def
      is_digit_def digits_val_def digit_val_def pow10_def fl_120)

section \<open>The segments of the service\<close>

lemma say_fields [simp]:
  "payouts (say l t w) = payouts w"
  "partners (say l t w) = partners w"
  "requests (say l t w) = requests w"
  "console (say l t w) = console w @ [(l, t)]"
  by (simp_all add: say_def)

lemma select_payout_found:
  assumes "\<not> select_fails E" and "payouts w k = Some p" and "partners w (partner_id p) = Some q"
  shows "select_payout E k w = (Some (p, q), w\<lparr>requests := requests w @ [Select k]\<rparr>)"
  using assms by (simp add: select_payout_def Let_def)

lemma approve_fetch_not_pending:
  assumes "\<not> select_fails E" and "payouts w k = Some p" and "partners w (partner_id p) = Some q"
    and "status p \<noteq> Some ''pending''"
  shows "approve_fetch E k a w =
           (Inl (Error (''Cannot approve payout with status: '' @ status_text (status p))),
            say Err ''Error approving payout:''
              ((say Log ''Processing payout approval: '' w)
                 \<lparr>requests := requests w @ [Select k]\<rparr>))"
  using assms by (simp add: approve_fetch_def select_payout_found approve_throw_def)

lemma approve_fetch_ok:
  assumes "\<not> select_fails E" and "payouts w k = Some p" and "partners w (partner_id p) = Some q"
    and "status p = Some ''pending''"
    and "\<not> num_lt (or_zero (parseFloat (available_balance q))) (parseFloat (amount p))"
  shows "approve_fetch E k a w =
           (Inr \<lparr>l_payoutId = k, l_adminId = default_null a, l_payout = p, l_partner = q,
                  payoutAmount = parseFloat (amount p),
                  currentAvailableBalance = or_zero (parseFloat (available_balance q))\<rparr>,
            (say Log ''Processing payout approval: '' w)\<lparr>requests := requests w @ [Select k]\<rparr>)"
  using assms by (simp add: approve_fetch_def select_payout_found Let_def)

lemma approve_fetch_insufficient:
  assumes "\<not> select_fails E" and "payouts w k = Some p" and "partners w (partner_id p) = Some q"
    and "status p = Some ''pending''"
    and "num_lt (or_zero (parseFloat (available_balance q))) (parseFloat (amount p))"
  shows "approve_fetch E k a w =
           (Inl (Error (''Insufficient partner balance. Available: $''
                          @ toFixed2 (or_zero (parseFloat (available_balance q)))
                          @ '', Required: $'' @ toFixed2 (parseFloat (amount p)))),
            say Err ''Error approving payout:''
              ((say Log ''Processing payout approval: '' w)
                 \<lparr>requests := requests w @ [Select k]\<rparr>))"
  using assms by (simp add: approve_fetch_def select_payout_found Let_def approve_throw_def)

lemma ledger_error_only_after_partial_failure:
  assumes "fst (approvePayout E k a w) = Inl (Error (''Failed to update partner balance: '' @ m))"
  shows "payout_update_error E = None \<and> partner_update_error E = Some m"
  using assms
  by (auto simp: approvePayout_def approve_fetch_def select_payout_def approve_mark_def
      approve_deduct_def approve_rollback_def approve_notify_def approve_throw_def Let_def
      split: option.splits if_splits)

lemma approve_success:
  assumes "\<not> select_fails E"
    and "payouts w payoutId = Some p"
    and "partners w (partner_id p) = Some q"
    and "status p = Some ''pending''"
    and "bal = or_zero (parseFloat (available_balance q))"
    and "amt = parseFloat (amount p)"
    and "\<not> num_lt bal amt"
    and "payout_update_error E = None"
    and "partner_update_error E = None"
  shows "fst (approvePayout E payoutId adminId w)
           = Inr \<lparr>message = ''Payout approved successfully'', payout_id = payoutId,
                  amount_paid = amt, partner_name = business_name q,
                  previous_balance = bal, new_balance = num_sub bal amt\<rparr>
       \<and> requests (snd (approvePayout E payoutId adminId w))
           = requests w @
             [Select payoutId,
              UpdatePayout payoutId
                [Status ''approved'', ApprovedAt (JStr (clock E 0)),
                 ApprovedBy (default_null adminId), ProcessedAt (JStr (clock E 1))],
              UpdatePartner (partner_id p)
                [AvailableBalance (JNum (num_sub bal amt)), UpdatedAt (JStr (clock E 2))]]
       \<and> payouts (snd (approvePayout E payoutId adminId w))
           = (payouts w)(payoutId \<mapsto>
               p\<lparr>status := Some ''approved'', approved_at := JStr (clock E 0),
                  approved_by := json_set (default_null adminId) (approved_by p),
                  processed_at := JStr (clock E 1)\<rparr>)
       \<and> partners (snd (approvePayout E payoutId adminId w))
           = (partners w)(partner_id p \<mapsto>
               q\<lparr>available_balance := json_set (JNum (num_sub bal amt)) (available_balance q),
                  updated_at := JStr (clock E 2)\<rparr>)"
  using assms
  by (simp add: approvePayout_def approve_fetch_ok approve_mark_def approve_deduct_def
      approve_notify_def update_payout_def update_partner_def newAvailableBalance_def
      sendPayoutApprovalEmail_def send_email_def Let_def split: email_service.splits)

lemma or_zero_not_NaN: "or_zero x \<noteq> NaN"
  by (cases x) simp_all

lemma num_sub_not_negative:
  assumes "bal \<noteq> NaN" and "\<not> num_lt bal amt"
  shows "\<not> num_lt (num_sub bal amt) (Fin 0)"
proof (cases bal)
  case (Fin b)
  show ?thesis
  proof (cases amt)
    case (Fin a)
    then have "0 \<le> b - a" using assms(2) \<open>bal = Fin b\<close> by simp
    then have "fl (b - a) = PInf \<or> (\<exists>r. fl (b - a) = Fin r \<and> 0 \<le> r)" by (rule fl_nonneg)
    then show ?thesis using Fin \<open>bal = Fin b\<close> by auto
  qed (use Fin assms in simp_all)
qed (use assms in \<open>cases amt; simp\<close>)+

lemma json_set_not_negative:
  "\<not> num_lt n (Fin 0) \<Longrightarrow> \<not> negative (json_set (JNum n) old)"
  by (cases n) (simp_all add: negative_def)

lemma approve_requests_cases:
  "requests (snd (approvePayout E k a w)) = requests w @ [Select k]
   \<or> (\<exists>p q. payouts w k = Some p \<and> partners w (partner_id p) = Some q
          \<and> \<not> num_lt (or_zero (parseFloat (available_balance q))) (parseFloat (amount p))
          \<and> (\<exists>mark. requests (snd (approvePayout E k a w))
                  = requests w @ [Select k, UpdatePayout k mark]
               \<or> (\<exists>t back. requests (snd (approvePayout E k a w))
                     = requests w @
                       [Select k, UpdatePayout k mark,
                        UpdatePartner (partner_id p)
                          [AvailableBalance
                             (JNum (num_sub (or_zero (parseFloat (available_balance q)))
                                      (parseFloat (amount p)))), UpdatedAt t]]
                       @ back
                   \<and> (\<forall>r \<in> set back. \<exists>fs. r = UpdatePayout k fs))))"
  by (auto simp: approvePayout_def approve_fetch_def select_payout_def approve_mark_def
      approve_deduct_def approve_rollback_def approve_notify_def approve_throw_def
      update_payout_def update_partner_def newAvailableBalance_def
      sendPayoutApprovalEmail_def send_email_def Let_def
      split: option.splits if_splits email_service.splits)

lemma approve_partners_cases:
  "partners (snd (approvePayout E k a w)) = partners w
   \<or> (\<exists>p q t. payouts w k = Some p \<and> partners w (partner_id p) = Some q
          \<and> \<not> num_lt (or_zero (parseFloat (available_balance q))) (parseFloat (amount p))
          \<and> partners (snd (approvePayout E k a w))
              = (partners w)(partner_id p \<mapsto>
                  q\<lparr>available_balance :=
                       json_set (JNum (num_sub (or_zero (parseFloat (available_balance q)))
                                         (parseFloat (amount p)))) (available_balance q),
                     updated_at := t\<rparr>))"
  by (auto simp: approvePayout_def approve_fetch_def select_payout_def approve_mark_def
      approve_deduct_def approve_rollback_def approve_notify_def approve_throw_def
      update_payout_def update_partner_def newAvailableBalance_def
      sendPayoutApprovalEmail_def send_email_def Let_def
      split: option.splits if_splits email_service.splits)

lemma send_email_result:
  "fst (send_email t E w) = None"
  "payouts (snd (send_email t E w)) = payouts w"
  "partners (snd (send_email t E w)) = partners w"
  "requests (snd (send_email t E w)) = requests w"
  by (simp_all add: send_email_def split: email_service.splits)

lemma approve_email_irrelevant:
  "fst (approvePayout (E\<lparr>emailService := s\<rparr>) k a w) = fst (approvePayout E k a w)
   \<and> payouts (snd (approvePayout (E\<lparr>emailService := s\<rparr>) k a w)) = payouts (snd (approvePayout E k a w))
   \<and> partners (snd (approvePayout (E\<lparr>emailService := s\<rparr>) k a w)) = partners (snd (approvePayout E k a w))
   \<and> requests (snd (approvePayout (E\<lparr>emailService := s\<rparr>) k a w)) = requests (snd (approvePayout E k a w))"
  by (auto simp: approvePayout_def approve_fetch_def select_payout_def approve_mark_def
      approve_deduct_def approve_rollback_def approve_notify_def approve_throw_def
      update_payout_def update_partner_def newAvailableBalance_def
      sendPayoutApprovalEmail_def send_email_def Let_def
      split: option.splits if_splits email_service.splits)

lemma reject_email_irrelevant:
  "fst (rejectPayout (E\<lparr>emailService := s\<rparr>) k a r w) = fst (rejectPayout E k a r w)
   \<and> payouts (snd (rejectPayout (E\<lparr>emailService := s\<rparr>) k a r w)) = payouts (snd (rejectPayout E k a r w))
   \<and> partners (snd (rejectPayout (E\<lparr>emailService := s\<rparr>) k a r w)) = partners (snd (rejectPayout E k a r w))
   \<and> requests (snd (rejectPayout (E\<lparr>emailService := s\<rparr>) k a r w)) = requests (snd (rejectPayout E k a r w))"
  by (auto simp: rejectPayout_def select_payout_def reject_mark_def reject_notify_def
      reject_throw_def update_payout_def sendPayoutRejectionEmail_def send_email_def Let_def
      split: option.splits if_splits email_service.splits)

lemma approve_console_when_sent:
  assumes "\<not> select_fails E" and "payouts w k = Some p" and "partners w (partner_id p) = Some q"
    and "status p = Some ''pending''"
    and "\<not> num_lt (or_zero (parseFloat (available_balance q))) (parseFloat (amount p))"
    and "payout_update_error E = None" and "partner_update_error E = None"
  shows "console (snd (approvePayout (E\<lparr>emailService := s\<rparr>) k a w))
           = console w @ [(Log, ''Processing payout approval: ''),
                          (Log, ''Payout approved successfully: ''), (Log, ''Partner '')]
             @ (case s of Sends \<Rightarrow> []
                | Unavailable \<Rightarrow> [(Warn, ''Email service not available'')]
                | Undeclared \<Rightarrow> [(Err, ''Error sending payout approval email:'')]
                | Throws \<Rightarrow> [(Err, ''Error sending payout approval email:'')])"
    and "\<exists>r. fst (approvePayout (E\<lparr>emailService := s\<rparr>) k a w) = Inr r"
  using assms
  by (simp_all add: approvePayout_def approve_fetch_ok approve_mark_def approve_deduct_def
      approve_notify_def update_payout_def update_partner_def newAvailableBalance_def
      sendPayoutApprovalEmail_def send_email_def Let_def split: email_service.splits)

lemma reject_console_when_sent:
  assumes "\<not> select_fails E" and "payouts w k = Some p" and "partners w (partner_id p) = Some q"
    and "status p = Some ''pending''"
    and "payout_update_error E = None"
  shows "console (snd (rejectPayout (E\<lparr>emailService := s\<rparr>) k a r w))
           = console w @ [(Log, ''Processing payout rejection: ''),
                          (Log, ''Payout rejected successfully: '')]
             @ (case s of Sends \<Rightarrow> []
                | Unavailable \<Rightarrow> [(Warn, ''Email service not available'')]
                | Undeclared \<Rightarrow> [(Err, ''Error sending payout rejection email:'')]
                | Throws \<Rightarrow> [(Err, ''Error sending payout rejection email:'')])"
    and "\<exists>x. fst (rejectPayout (E\<lparr>emailService := s\<rparr>) k a r w) = Inr x"
  using assms
  by (simp_all add: rejectPayout_def select_payout_found reject_mark_def reject_notify_def
      update_payout_def sendPayoutRejectionEmail_def send_email_def Let_def
      split: email_service.splits)






lemma never_negative_say [simp]: "never_negative (say l t w) = never_negative w"
  by (simp add: never_negative_def)

lemma never_negative_select:
  "never_negative w \<Longrightarrow> never_negative (snd (select_payout E k w))"
  by (auto simp: never_negative_def select_payout_def Let_def split: option.splits)

lemma never_negative_update_payout:
  "never_negative w \<Longrightarrow> never_negative (update_payout f k fs w)"
  by (auto simp: never_negative_def update_payout_def Let_def split: option.splits)

lemma never_negative_update_partner:
  assumes "never_negative w" and "\<not> num_lt n (Fin 0)"
  shows "never_negative (update_partner f k [AvailableBalance (JNum n), UpdatedAt t] w)"
proof -
  have v: "\<not> negative (JNum n)" using assms(2) by (simp add: negative_def)
  have j: "\<not> negative (json_set (JNum n) old)" for old
    using assms(2) by (rule json_set_not_negative)
  show ?thesis
    using assms(1) v j
    by (auto simp: never_negative_def update_partner_def Let_def ran_def
        split: option.splits if_splits)
qed

lemma approve_fetch_checked:
  "approve_fetch E k a w = (Inr l, w') \<Longrightarrow> checked l"
  by (auto simp: approve_fetch_def approve_throw_def checked_def Let_def or_zero_not_NaN
      split: prod.splits option.splits if_splits)

lemma approve_fetch_never_negative:
  "never_negative w \<Longrightarrow> never_negative (snd (approve_fetch E k a w))"
  using never_negative_select [of "say Log ''Processing payout approval: '' w" E k]
  by (auto simp: approve_fetch_def approve_throw_def Let_def
      split: prod.splits option.splits if_splits)

lemma step_invariant:
  assumes "task_checked t" and "never_negative w"
  shows "task_checked (fst (step E t w)) \<and> never_negative (snd (step E t w))"
proof (cases t)
  case (Start k a)
  then show ?thesis
    using approve_fetch_checked [of E k a w] approve_fetch_never_negative [OF assms(2), of E k a]
    by (auto split: prod.splits sum.splits)
next
  case (Fetched l)
  then show ?thesis
    using assms never_negative_update_payout [OF assms(2)]
    by (auto simp: approve_mark_def approve_throw_def Let_def split: option.splits)
next
  case (Marked l)
  have "\<not> num_lt (newAvailableBalance l) (Fin 0)"
    using assms(1) Marked
    by (simp add: newAvailableBalance_def checked_def num_sub_not_negative)
  then show ?thesis
    using assms Marked never_negative_update_partner [OF assms(2)]
    by (auto simp: approve_deduct_def split: option.splits)
next
  case (RollingBack l m)
  then show ?thesis
    using assms never_negative_update_payout [of "say Err ''Partner balance update error:'' w"]
    by (auto simp: approve_rollback_def approve_throw_def Let_def)
next
  case (Notifying l)
  then show ?thesis
    using assms
    by (auto simp: approve_notify_def sendPayoutApprovalEmail_def send_email_def Let_def
        split: email_service.splits)
next
  case (Done r)
  then show ?thesis using assms by simp
qed

lemma interleave_invariant:
  assumes "task_checked a" and "task_checked b" and "never_negative w"
  shows "never_negative (snd (snd (interleave Ea Eb s (a, b, w))))"
  using assms
proof (induction s arbitrary: a b w)
  case Nil
  then show ?case by simp
next
  case (Cons x s)
  show ?case
  proof (cases x)
    case True
    obtain a1 w1 where st: "step Ea a w = (a1, w1)" by (cases "step Ea a w") auto
    have "task_checked a1 \<and> never_negative w1"
      using step_invariant [OF Cons.prems(1,3), of Ea] by (simp add: st)
    then show ?thesis using Cons.IH [of a1 b w1] Cons.prems(2) by (simp add: True st)
  next
    case False
    obtain b1 w1 where st: "step Eb b w = (b1, w1)" by (cases "step Eb b w") auto
    have "task_checked b1 \<and> never_negative w1"
      using step_invariant [OF Cons.prems(2,3), of Eb] by (simp add: st)
    then show ?thesis using Cons.IH [of a b1 w1] Cons.prems(1) by (simp add: False st)
  qed
qed

lemma reject_success:
  assumes "\<not> select_fails E"
    and "payouts w payoutId = Some p"
    and "partners w (partner_id p) = Some q"
    and "status p = Some ''pending''"
    and "payout_update_error E = None"
  shows "fst (rejectPayout E payoutId adminId rejectionReason w)
           = Inr \<lparr>reject_message = ''Payout rejected successfully'',
                  rejected_payout_id = payoutId,
                  returned_reason = default_empty rejectionReason\<rparr>
       \<and> requests (snd (rejectPayout E payoutId adminId rejectionReason w))
           = requests w @
             [Select payoutId,
              UpdatePayout payoutId
                [Status ''rejected'', RejectedAt (JStr (clock E 0)),
                 RejectedBy (default_null adminId),
                 RejectionReason (reason_or_default (default_empty rejectionReason))]]
       \<and> payouts (snd (rejectPayout E payoutId adminId rejectionReason w))
           = (payouts w)(payoutId \<mapsto>
               p\<lparr>status := Some ''rejected'', rejected_at := JStr (clock E 0),
                  rejected_by := json_set (default_null adminId) (rejected_by p),
                  rejection_reason :=
                    json_set (reason_or_default (default_empty rejectionReason))
                      (rejection_reason p)\<rparr>)
       \<and> partners (snd (rejectPayout E payoutId adminId rejectionReason w)) = partners w
       \<and> (rejectionReason = JUndefined \<or> rejectionReason = JStr []
            \<longrightarrow> json_set (reason_or_default (default_empty rejectionReason)) (rejection_reason p)
                  = JStr ''Rejected by admin'')
       \<and> (\<forall>s. rejectionReason = JStr s \<and> s \<noteq> []
            \<longrightarrow> json_set (reason_or_default (default_empty rejectionReason)) (rejection_reason p)
                  = JStr s)"
  using assms
  by (auto simp: rejectPayout_def select_payout_found reject_mark_def reject_notify_def
      update_payout_def sendPayoutRejectionEmail_def send_email_def Let_def
      reason_or_default_def default_empty_def
      split: email_service.splits)

section \<open>The example store, evaluated\<close>

lemma world_1_facts:
  "\<not> select_fails env_ok"
  "payouts world_1 ''P1'' = Some payout_P1"
  "partners world_1 (partner_id payout_P1) = Some partner_N1"
  "status payout_P1 = Some ''pending''"
  "Fin 250 = or_zero (parseFloat (available_balance partner_N1))"
  "Fin 100 = parseFloat (amount payout_P1)"
  "\<not> num_lt (Fin 250) (Fin 100)"
  "payout_update_error env_ok = None"
  "partner_update_error env_ok = None"
  by (simp_all add: env_ok_def world_1_def payout_P1_def partner_N1_def)

lemma approve_P1:
  "fst (approvePayout env_ok ''P1'' JNull world_1) = Inr result_P1"
  "requests (snd (approvePayout env_ok ''P1'' JNull world_1))
     = [Select ''P1'', UpdatePayout ''P1'' mark_P1, UpdatePartner ''N1'' deduct_N1]"
  using approve_success [OF world_1_facts, of JNull]
  by (simp_all add: result_P1_def mark_P1_def deduct_N1_def fl_150 env_ok_def world_1_def
      payout_P1_def partner_N1_def default_null_def)


section \<open>Approving a pending payout\<close>

text \<open>
  C1, as the code has it. When the fetch finds a pending payout with its partner, the
  balance is not below the amount, and both updates succeed, \<open>approvePayout\<close> succeeds.
  It sets the payout to \<open>approved\<close> with \<open>approved_at\<close>, \<open>approved_by\<close> and \<open>processed_at\<close>,
  sets the available balance of the partner to the difference of the previous balance and
  the amount as JavaScript computes it (the double nearest to the exact difference), and
  returns the payout id, the amount, the business name, the previous and the new balance.
  When the exact difference is a double, the new balance plus the amount is the previous
  balance.
\<close>

theorem approve_pending_payout:
  assumes "\<not> select_fails E"
    and "payouts w payoutId = Some p"
    and "partners w (partner_id p) = Some q"
    and "status p = Some ''pending''"
    and "bal = or_zero (parseFloat (available_balance q))"
    and "amt = parseFloat (amount p)"
    and "\<not> num_lt bal amt"
    and "payout_update_error E = None"
    and "partner_update_error E = None"
  shows "fst (approvePayout E payoutId adminId w)
           = Inr \<lparr>message = ''Payout approved successfully'', payout_id = payoutId,
                  amount_paid = amt, partner_name = business_name q,
                  previous_balance = bal, new_balance = num_sub bal amt\<rparr>
       \<and> requests (snd (approvePayout E payoutId adminId w))
           = requests w @
             [Select payoutId,
              UpdatePayout payoutId
                [Status ''approved'', ApprovedAt (JStr (clock E 0)),
                 ApprovedBy (default_null adminId), ProcessedAt (JStr (clock E 1))],
              UpdatePartner (partner_id p)
                [AvailableBalance (JNum (num_sub bal amt)), UpdatedAt (JStr (clock E 2))]]
       \<and> payouts (snd (approvePayout E payoutId adminId w))
           = (payouts w)(payoutId \<mapsto>
               p\<lparr>status := Some ''approved'', approved_at := JStr (clock E 0),
                  approved_by := json_set (default_null adminId) (approved_by p),
                  processed_at := JStr (clock E 1)\<rparr>)
       \<and> partners (snd (approvePayout E payoutId adminId w))
           = (partners w)(partner_id p \<mapsto>
               q\<lparr>available_balance := json_set (JNum (num_sub bal amt)) (available_balance q),
                  updated_at := JStr (clock E 2)\<rparr>)
       \<and> (\<forall>a b. bal = Fin a \<and> amt = Fin b \<and> fl (a - b) = Fin (a - b)
             \<longrightarrow> num_sub bal amt = Fin (a - b) \<and> (a - b) + b = a)"
  using approve_success [OF assms, of adminId] by simp

theorem approve_pending_payout_witness:
  "fst (approvePayout env_ok ''P1'' JNull world_1)
     = Inr \<lparr>message = ''Payout approved successfully'', payout_id = ''P1'',
            amount_paid = Fin 100, partner_name = JStr ''Acme Travel'',
            previous_balance = Fin 250, new_balance = Fin 150\<rparr>
   \<and> map_option status (payouts (snd (approvePayout env_ok ''P1'' JNull world_1)) ''P1'')
     = Some (Some ''approved'')
   \<and> map_option available_balance (partners (snd (approvePayout env_ok ''P1'' JNull world_1)) ''N1'')
     = Some (JNum (Fin 150))"
proof -
  have h1: "\<not> select_fails env_ok" by (simp add: env_ok_def)
  have h2: "payouts world_1 ''P1'' = Some payout_P1" by (simp add: world_1_def)
  have h3: "partners world_1 (partner_id payout_P1) = Some partner_N1"
    by (simp add: world_1_def payout_P1_def)
  have h4: "status payout_P1 = Some ''pending''" by (simp add: payout_P1_def)
  have h5: "Fin 250 = or_zero (parseFloat (available_balance partner_N1))"
    by (simp add: partner_N1_def)
  have h6: "Fin 100 = parseFloat (amount payout_P1)" by (simp add: payout_P1_def)
  have h7: "\<not> num_lt (Fin 250) (Fin 100)" by simp
  have h8: "payout_update_error env_ok = None" by (simp add: env_ok_def)
  have h9: "partner_update_error env_ok = None" by (simp add: env_ok_def)
  have sub: "num_sub (Fin 250) (Fin 100) = Fin 150" by (simp add: fl_150)
  have n1: "business_name partner_N1 = JStr ''Acme Travel''" by (simp add: partner_N1_def)
  have n2: "partner_id payout_P1 = ''N1''" by (simp add: payout_P1_def)
  show ?thesis
    using approve_pending_payout [OF h1 h2 h3 h4 h5 h6 h7 h8 h9, of JNull]
    by (simp add: fl_150 n1 n2)
qed

text \<open>
  With a balance of 0.21 and an amount of 0.05 the call succeeds and the new balance is
  0.15999999999999998, which is not the double of 0.16. In JavaScript the new balance plus
  the amount is 0.20999999999999996, not 0.21, and the exact sum of the two doubles
  differs from the previous balance as well.
\<close>

theorem approve_sum_counterexample:
  "fl (21 / 100) = Fin (7566047373982433 / 36028797018963968)
   \<and> fl (5 / 100) = Fin (3602879701896397 / 72057594037927936)
   \<and> fst (approvePayout env_ok ''P3'' JNull world_3)
     = Inr \<lparr>message = ''Payout approved successfully'', payout_id = ''P3'',
            amount_paid = Fin (3602879701896397 / 72057594037927936),
            partner_name = JStr ''Acme Travel'',
            previous_balance = Fin (7566047373982433 / 36028797018963968),
            new_balance = Fin (2882303761517117 / 18014398509481984)\<rparr>
   \<and> num_add (Fin (2882303761517117 / 18014398509481984))
              (Fin (3602879701896397 / 72057594037927936))
     = Fin (236438980436951 / 1125899906842624)
   \<and> Fin (236438980436951 / 1125899906842624)
     \<noteq> Fin (7566047373982433 / 36028797018963968)
   \<and> (2882303761517117 / 18014398509481984 + 3602879701896397 / 72057594037927936 :: rat)
     \<noteq> 7566047373982433 / 36028797018963968
   \<and> fl (21 / 100 - 5 / 100) \<noteq> Fin (2882303761517117 / 18014398509481984)"
proof -
  have "fst (approvePayout env_ok ''P3'' JNull world_3)
     = Inr \<lparr>message = ''Payout approved successfully'', payout_id = ''P3'',
            amount_paid = Fin (3602879701896397 / 72057594037927936),
            partner_name = JStr ''Acme Travel'',
            previous_balance = Fin (7566047373982433 / 36028797018963968),
            new_balance = Fin (2882303761517117 / 18014398509481984)\<rparr>"
    by (simp add: approvePayout_def approve_fetch_def select_payout_def approve_mark_def
        approve_deduct_def approve_notify_def update_payout_def update_partner_def
        newAvailableBalance_def sendPayoutApprovalEmail_def send_email_def Let_def
        env_ok_def world_3_def payout_P3_def partner_N3_def payout_P1_def partner_N1_def
        say_def fl_cents_sub)
  moreover have "num_add (Fin (2882303761517117 / 18014398509481984))
              (Fin (3602879701896397 / 72057594037927936))
     = Fin (236438980436951 / 1125899906842624)"
    by (simp add: fl_cents_add)
  ultimately show ?thesis by (simp add: fl_021 fl_005 fl_016)
qed

section \<open>A deduction that fails\<close>

text \<open>
  C2. When the update of the partner fails after the update of the payout succeeded,
  \<open>approvePayout\<close> sends a further update that sets the payout back to \<open>pending\<close> and
  clears \<open>approved_at\<close>, \<open>approved_by\<close> and \<open>processed_at\<close>, and then throws the error
  \<open>Failed to update partner balance:\<close> with the message of the store. No other failure of
  \<open>approvePayout\<close> has a message of this form, and the error reaches the caller after it
  was written to the console. The tables show the payout as pending when the store
  carries the further update out.
\<close>

theorem failed_deduction_is_rolled_back:
  assumes "\<not> select_fails E"
    and "payouts w payoutId = Some p"
    and "partners w (partner_id p) = Some q"
    and "status p = Some ''pending''"
    and "bal = or_zero (parseFloat (available_balance q))"
    and "amt = parseFloat (amount p)"
    and "\<not> num_lt bal amt"
    and "payout_update_error E = None"
    and "partner_update_error E = Some m"
  shows "fst (approvePayout E payoutId adminId w)
           = Inl (Error (''Failed to update partner balance: '' @ m))
       \<and> requests (snd (approvePayout E payoutId adminId w))
           = requests w @
             [Select payoutId,
              UpdatePayout payoutId
                [Status ''approved'', ApprovedAt (JStr (clock E 0)),
                 ApprovedBy (default_null adminId), ProcessedAt (JStr (clock E 1))],
              UpdatePartner (partner_id p)
                [AvailableBalance (JNum (num_sub bal amt)), UpdatedAt (JStr (clock E 2))],
              UpdatePayout payoutId
                [Status ''pending'', ApprovedAt JNull, ApprovedBy JNull, ProcessedAt JNull]]
       \<and> partners (snd (approvePayout E payoutId adminId w)) = partners w
       \<and> (\<not> rollback_fails E \<longrightarrow>
            payouts (snd (approvePayout E payoutId adminId w))
              = (payouts w)(payoutId \<mapsto>
                  p\<lparr>status := Some ''pending'', approved_at := JNull, approved_by := JNull,
                     processed_at := JNull\<rparr>))
       \<and> last (console (snd (approvePayout E payoutId adminId w)))
           = (Err, ''Error approving payout:'')
       \<and> (\<forall>E' k a w' m'.
             fst (approvePayout E' k a w')
               = Inl (Error (''Failed to update partner balance: '' @ m'))
             \<longrightarrow> payout_update_error E' = None \<and> partner_update_error E' = Some m')"
proof -
  have "fst (approvePayout E payoutId adminId w)
           = Inl (Error (''Failed to update partner balance: '' @ m))
       \<and> requests (snd (approvePayout E payoutId adminId w))
           = requests w @
             [Select payoutId,
              UpdatePayout payoutId
                [Status ''approved'', ApprovedAt (JStr (clock E 0)),
                 ApprovedBy (default_null adminId), ProcessedAt (JStr (clock E 1))],
              UpdatePartner (partner_id p)
                [AvailableBalance (JNum (num_sub bal amt)), UpdatedAt (JStr (clock E 2))],
              UpdatePayout payoutId
                [Status ''pending'', ApprovedAt JNull, ApprovedBy JNull, ProcessedAt JNull]]
       \<and> partners (snd (approvePayout E payoutId adminId w)) = partners w
       \<and> (\<not> rollback_fails E \<longrightarrow>
            payouts (snd (approvePayout E payoutId adminId w))
              = (payouts w)(payoutId \<mapsto>
                  p\<lparr>status := Some ''pending'', approved_at := JNull, approved_by := JNull,
                     processed_at := JNull\<rparr>))
       \<and> last (console (snd (approvePayout E payoutId adminId w)))
           = (Err, ''Error approving payout:'')"
    using assms
    by (simp add: approvePayout_def approve_fetch_ok approve_mark_def approve_deduct_def
        approve_rollback_def approve_throw_def update_payout_def update_partner_def
        newAvailableBalance_def Let_def)
  then show ?thesis using ledger_error_only_after_partial_failure by blast
qed

theorem failed_deduction_is_rolled_back_witness:
  "fst (approvePayout env_deduct_fails ''P1'' JNull world_1)
     = Inl (Error ''Failed to update partner balance: timeout'')
   \<and> last (requests (snd (approvePayout env_deduct_fails ''P1'' JNull world_1)))
     = UpdatePayout ''P1''
         [Status ''pending'', ApprovedAt JNull, ApprovedBy JNull, ProcessedAt JNull]
   \<and> map_option status (payouts (snd (approvePayout env_deduct_fails ''P1'' JNull world_1)) ''P1'')
     = Some (Some ''pending'')
   \<and> map_option available_balance
         (partners (snd (approvePayout env_deduct_fails ''P1'' JNull world_1)) ''N1'')
     = Some (JNum (Fin 250))"
proof -
  have h1: "\<not> select_fails env_deduct_fails" by (simp add: env_deduct_fails_def env_ok_def)
  have h2: "payouts world_1 ''P1'' = Some payout_P1" by (simp add: world_1_def)
  have h3: "partners world_1 (partner_id payout_P1) = Some partner_N1"
    by (simp add: world_1_def payout_P1_def)
  have h4: "status payout_P1 = Some ''pending''" by (simp add: payout_P1_def)
  have h5: "Fin 250 = or_zero (parseFloat (available_balance partner_N1))"
    by (simp add: partner_N1_def)
  have h6: "Fin 100 = parseFloat (amount payout_P1)" by (simp add: payout_P1_def)
  have h7: "\<not> num_lt (Fin 250) (Fin 100)" by simp
  have h8: "payout_update_error env_deduct_fails = None"
    by (simp add: env_deduct_fails_def env_ok_def)
  have h9: "partner_update_error env_deduct_fails = Some ''timeout''"
    by (simp add: env_deduct_fails_def env_ok_def)
  have r: "\<not> rollback_fails env_deduct_fails" by (simp add: env_deduct_fails_def env_ok_def)
  have n: "available_balance partner_N1 = JNum (Fin 250)" by (simp add: partner_N1_def)
  have "partners world_1 ''N1'' = Some partner_N1" by (simp add: world_1_def)
  then show ?thesis
    using failed_deduction_is_rolled_back [OF h1 h2 h3 h4 h5 h6 h7 h8 h9, of JNull] r n
    by simp
qed

section \<open>Two approvals of one payout\<close>





section \<open>A payout that is not pending\<close>

text \<open>
  C4. When the payout that is fetched has a status other than \<open>pending\<close>, both
  \<open>approvePayout\<close> and \<open>rejectPayout\<close> throw the error that names the state (the
  message ends with the status the payout has), and the only call they make to the store
  is the fetch: the tables are as before.
\<close>

theorem non_pending_payout_is_refused:
  assumes "\<not> select_fails E"
    and "payouts w payoutId = Some p"
    and "partners w (partner_id p) = Some q"
    and "status p \<noteq> Some ''pending''"
  shows "fst (approvePayout E payoutId adminId w)
           = Inl (Error (''Cannot approve payout with status: '' @ status_text (status p)))
       \<and> payouts (snd (approvePayout E payoutId adminId w)) = payouts w
       \<and> partners (snd (approvePayout E payoutId adminId w)) = partners w
       \<and> requests (snd (approvePayout E payoutId adminId w)) = requests w @ [Select payoutId]
       \<and> fst (rejectPayout E payoutId adminId rejectionReason w)
           = Inl (Error (''Cannot reject payout with status: '' @ status_text (status p)))
       \<and> payouts (snd (rejectPayout E payoutId adminId rejectionReason w)) = payouts w
       \<and> partners (snd (rejectPayout E payoutId adminId rejectionReason w)) = partners w
       \<and> requests (snd (rejectPayout E payoutId adminId rejectionReason w))
           = requests w @ [Select payoutId]"
  using assms
  by (simp add: approvePayout_def approve_fetch_not_pending rejectPayout_def
      select_payout_found reject_throw_def)

theorem non_pending_payout_is_refused_witness:
  "fst (approvePayout env_ok ''P2'' JNull world_2)
     = Inl (Error ''Cannot approve payout with status: approved'')
   \<and> fst (rejectPayout env_ok ''P2'' JNull (JStr ''late'') world_2)
     = Inl (Error ''Cannot reject payout with status: approved'')
   \<and> requests (snd (approvePayout env_ok ''P2'' JNull world_2)) = [Select ''P2'']
   \<and> requests (snd (rejectPayout env_ok ''P2'' JNull (JStr ''late'') world_2)) = [Select ''P2'']"
  using non_pending_payout_is_refused [of env_ok world_2 "''P2''" payout_P2 partner_N1 JNull "JStr ''late''"]
  by (simp add: env_ok_def world_2_def world_1_def payout_P2_def payout_P1_def)

section \<open>A balance below the amount\<close>

text \<open>
  C5, as the code has it. When the balance of the partner is below the amount of a
  pending payout, \<open>approvePayout\<close> throws the error \<open>Insufficient partner balance\<close>, whose
  message holds the balance and the amount as \<open>toFixed(2)\<close> writes them, and the only call
  to the store is the fetch. For a finite value of magnitude below \<open>10 ^ 21\<close> the text is
  digits, a point and two digits, and it denotes the value rounded to hundredths.
\<close>

theorem insufficient_balance_is_refused:
  assumes "\<not> select_fails E"
    and "payouts w payoutId = Some p"
    and "partners w (partner_id p) = Some q"
    and "status p = Some ''pending''"
    and "bal = or_zero (parseFloat (available_balance q))"
    and "amt = parseFloat (amount p)"
    and "num_lt bal amt"
  shows "fst (approvePayout E payoutId adminId w)
           = Inl (Error (''Insufficient partner balance. Available: $'' @ toFixed2 bal
                          @ '', Required: $'' @ toFixed2 amt))
       \<and> requests (snd (approvePayout E payoutId adminId w)) = requests w @ [Select payoutId]
       \<and> payouts (snd (approvePayout E payoutId adminId w)) = payouts w
       \<and> partners (snd (approvePayout E payoutId adminId w)) = partners w
       \<and> (\<forall>x. bal = Fin x \<and> \<bar>x\<bar> < 10 ^ 21
            \<longrightarrow> two_places (toFixed2 bal) \<and> decimal_value (toFixed2 bal) = Some (rounded2 x)
                \<and> \<bar>rounded2 x - x\<bar> \<le> 1 / 200)
       \<and> (\<forall>x. amt = Fin x \<and> \<bar>x\<bar> < 10 ^ 21
            \<longrightarrow> two_places (toFixed2 amt) \<and> decimal_value (toFixed2 amt) = Some (rounded2 x)
                \<and> \<bar>rounded2 x - x\<bar> \<le> 1 / 200)"
proof -
  have "fst (approvePayout E payoutId adminId w)
           = Inl (Error (''Insufficient partner balance. Available: $'' @ toFixed2 bal
                          @ '', Required: $'' @ toFixed2 amt))
       \<and> requests (snd (approvePayout E payoutId adminId w)) = requests w @ [Select payoutId]
       \<and> payouts (snd (approvePayout E payoutId adminId w)) = payouts w
       \<and> partners (snd (approvePayout E payoutId adminId w)) = partners w"
    using assms by (simp add: approvePayout_def approve_fetch_insufficient)
  moreover have "\<forall>x. bal = Fin x \<and> \<bar>x\<bar> < 10 ^ 21
            \<longrightarrow> two_places (toFixed2 bal) \<and> decimal_value (toFixed2 bal) = Some (rounded2 x)
                \<and> \<bar>rounded2 x - x\<bar> \<le> 1 / 200"
    using toFixed2_rounded by blast
  moreover have "\<forall>x. amt = Fin x \<and> \<bar>x\<bar> < 10 ^ 21
            \<longrightarrow> two_places (toFixed2 amt) \<and> decimal_value (toFixed2 amt) = Some (rounded2 x)
                \<and> \<bar>rounded2 x - x\<bar> \<le> 1 / 200"
    using toFixed2_rounded by blast
  ultimately show ?thesis by blast
qed

theorem insufficient_balance_is_refused_witness:
  "fst (approvePayout env_ok ''P6'' JNull world_6)
     = Inl (Error ''Insufficient partner balance. Available: $99.50, Required: $100.25'')
   \<and> requests (snd (approvePayout env_ok ''P6'' JNull world_6)) = [Select ''P6'']
   \<and> payouts (snd (approvePayout env_ok ''P6'' JNull world_6)) = payouts world_6
   \<and> partners (snd (approvePayout env_ok ''P6'' JNull world_6)) = partners world_6
   \<and> two_places ''99.50'' \<and> decimal_value ''99.50'' = Some (199 / 2)
   \<and> two_places ''100.25'' \<and> decimal_value ''100.25'' = Some (401 / 4)"
proof -
  have h1: "\<not> select_fails env_ok" by (simp add: env_ok_def)
  have h2: "payouts world_6 ''P6'' = Some payout_P6" by (simp add: world_6_def)
  have h3: "partners world_6 (partner_id payout_P6) = Some partner_N6"
    by (simp add: world_6_def payout_P6_def)
  have h4: "status payout_P6 = Some ''pending''" by (simp add: payout_P6_def payout_P1_def)
  have h5: "Fin (199 / 2) = or_zero (parseFloat (available_balance partner_N6))"
    by (simp add: partner_N6_def)
  have h6: "Fin (401 / 4) = parseFloat (amount payout_P6)" by (simp add: payout_P6_def)
  have h7: "num_lt (Fin (199 / 2)) (Fin (401 / 4))" by simp
  have r: "requests world_6 = []" by (simp add: world_6_def)
  have t: "toFixed2 (Fin (199 / 2)) = ''99.50''" "toFixed2 (Fin (401 / 4)) = ''100.25''"
    by (simp_all add: fixed2_9950 fixed2_10025)
  have v: "rounded2 (199 / 2) = 199 / 2" "rounded2 (401 / 4) = 401 / 4"
    using rounded2_cents [of 9950] rounded2_cents [of 10025] by simp_all
  have s: "\<bar>199 / 2 :: rat\<bar> < 10 ^ 21" "\<bar>401 / 4 :: rat\<bar> < 10 ^ 21" by simp_all
  show ?thesis
    using insufficient_balance_is_refused [OF h1 h2 h3 h4 h5 h6 h7, of JNull] r s
    by (simp only: t v) simp
qed

text \<open>
  With a balance of 250 and an amount of \<open>10 ^ 21\<close> the message ends with
  \<open>Required: $1e+21\<close>: from \<open>10 ^ 21\<close> on \<open>toFixed\<close> writes the number in exponent form.
\<close>

theorem insufficient_balance_exponent_counterexample:
  "status payout_P7 = Some ''pending''
   \<and> num_lt (or_zero (parseFloat (available_balance partner_N1))) (parseFloat (amount payout_P7))
   \<and> fst (approvePayout env_ok ''P7'' JNull world_7)
     = Inl (Error ''Insufficient partner balance. Available: $250.00, Required: $1e+21'')
   \<and> \<not> two_places ''1e+21''"
proof -
  have h1: "\<not> select_fails env_ok" by (simp add: env_ok_def)
  have h2: "payouts world_7 ''P7'' = Some payout_P7" by (simp add: world_7_def)
  have h3: "partners world_7 (partner_id payout_P7) = Some partner_N1"
    by (simp add: world_7_def world_1_def payout_P7_def payout_P1_def)
  have h4: "status payout_P7 = Some ''pending''" by (simp add: payout_P7_def payout_P1_def)
  have b: "or_zero (parseFloat (available_balance partner_N1)) = Fin 250"
    by (simp add: partner_N1_def)
  have a: "parseFloat (amount payout_P7) = Fin 1000000000000000000000"
    by (simp add: payout_P7_def)
  have h5: "num_lt (or_zero (parseFloat (available_balance partner_N1)))
              (parseFloat (amount payout_P7))"
    by (simp add: a b)
  have t: "toFixed2 (Fin 250) = ''250.00''" "toFixed2 (Fin 1000000000000000000000) = ''1e+21''"
    by (simp_all add: fixed2_250 to_string_large_1e21)
  have "approve_fetch env_ok ''P7'' JNull world_7 =
           (Inl (Error (''Insufficient partner balance. Available: $''
                          @ toFixed2 (or_zero (parseFloat (available_balance partner_N1)))
                          @ '', Required: $'' @ toFixed2 (parseFloat (amount payout_P7)))),
            say Err ''Error approving payout:''
              ((say Log ''Processing payout approval: '' world_7)
                 \<lparr>requests := requests world_7 @ [Select ''P7'']\<rparr>))"
    using h1 h2 h3 h4 h5 by (rule approve_fetch_insufficient)
  then have "fst (approvePayout env_ok ''P7'' JNull world_7)
     = Inl (Error ''Insufficient partner balance. Available: $250.00, Required: $1e+21'')"
    by (simp only: a b t approvePayout_def) simp
  moreover have "\<not> two_places ''1e+21''" by (simp add: two_places_def Let_def)
  ultimately show ?thesis using h4 h5 by simp
qed

section \<open>The balance never goes below zero\<close>

text \<open>
  C6. Whatever the store holds and whatever fails, an update of the partner that
  \<open>approvePayout\<close> sends never carries a negative available balance, and a partner row is
  either as before or has a balance that is not negative. The update is sent only when the
  balance fetched by this call is not below the amount fetched by this call, and the value
  it carries is their difference: for a numeric amount \<open>a\<close> and a numeric balance \<open>b\<close>, it is
  sent only when \<open>a \<le> b\<close>. The same holds when two calls run at once: from a store without
  a negative balance, no schedule of their segments leads to one.
\<close>

theorem approval_never_writes_negative_balance:
  "(\<forall>j fs v. UpdatePartner j fs
                 \<in> set (drop (length (requests w)) (requests (snd (approvePayout E payoutId adminId w))))
               \<and> AvailableBalance v \<in> set fs
       \<longrightarrow> \<not> negative v
          \<and> (\<exists>p q. payouts w payoutId = Some p \<and> partners w (partner_id p) = Some q
                 \<and> j = partner_id p
                 \<and> \<not> num_lt (or_zero (parseFloat (available_balance q))) (parseFloat (amount p))
                 \<and> v = JNum (num_sub (or_zero (parseFloat (available_balance q)))
                                 (parseFloat (amount p)))
                 \<and> (\<forall>a b. parseFloat (amount p) = Fin a
                          \<and> parseFloat (available_balance q) = Fin b
                      \<longrightarrow> a \<le> b \<and> v = JNum (fl (b - a)))))
   \<and> (\<forall>j q'. partners (snd (approvePayout E payoutId adminId w)) j = Some q'
       \<longrightarrow> partners w j = Some q' \<or> \<not> negative (available_balance q'))
   \<and> (never_negative w
       \<longrightarrow> never_negative
             (snd (snd (interleave Ea Eb schedule
                          (Start payoutId adminId, Start payoutId' adminId', w)))))"
proof -
  let ?w' = "snd (approvePayout E payoutId adminId w)"
  have nonneg: "\<not> num_lt (num_sub (or_zero x) y) (Fin 0)" if "\<not> num_lt (or_zero x) y" for x y
    using or_zero_not_NaN that by (rule num_sub_not_negative)
  have fin: "a \<le> b \<and> num_sub (or_zero (Fin b)) (Fin a) = fl (b - a)"
    if "\<not> num_lt (or_zero (Fin b)) (Fin a)" for a b
    using that by (cases "b = 0") (simp_all add: not_less)
  have writes: "\<forall>j fs v. UpdatePartner j fs \<in> set (drop (length (requests w)) (requests ?w'))
               \<and> AvailableBalance v \<in> set fs
       \<longrightarrow> \<not> negative v
          \<and> (\<exists>p q. payouts w payoutId = Some p \<and> partners w (partner_id p) = Some q
                 \<and> j = partner_id p
                 \<and> \<not> num_lt (or_zero (parseFloat (available_balance q))) (parseFloat (amount p))
                 \<and> v = JNum (num_sub (or_zero (parseFloat (available_balance q)))
                                 (parseFloat (amount p)))
                 \<and> (\<forall>a b. parseFloat (amount p) = Fin a
                          \<and> parseFloat (available_balance q) = Fin b
                      \<longrightarrow> a \<le> b \<and> v = JNum (fl (b - a))))"
    using approve_requests_cases [of E payoutId adminId w]
    by (elim disjE exE conjE) (auto simp: negative_def dest: nonneg fin)
  have stored: "\<forall>j q'. partners ?w' j = Some q'
       \<longrightarrow> partners w j = Some q' \<or> \<not> negative (available_balance q')"
    using approve_partners_cases [of E payoutId adminId w]
    by (elim disjE exE conjE) (auto simp: json_set_not_negative nonneg split: if_splits)
  have "never_negative
          (snd (snd (interleave Ea Eb schedule
                       (Start payoutId adminId, Start payoutId' adminId', w))))"
    if "never_negative w"
    using _ _ that by (rule interleave_invariant) simp_all
  with writes stored show ?thesis by blast
qed

theorem approval_never_writes_negative_balance_witness:
  "UpdatePartner ''N1'' deduct_N1
     \<in> set (drop (length (requests world_1))
               (requests (snd (approvePayout env_ok ''P1'' JNull world_1))))
   \<and> AvailableBalance (JNum (Fin 150)) \<in> set deduct_N1
   \<and> \<not> negative (JNum (Fin 150))
   \<and> never_negative world_1
   \<and> never_negative
        (snd (snd (interleave env_ok env_ok turns
                     (Start ''P1'' JNull, Start ''P1'' JNull, world_1))))"
proof -
  have a: "UpdatePartner ''N1'' deduct_N1
     \<in> set (drop (length (requests world_1))
               (requests (snd (approvePayout env_ok ''P1'' JNull world_1))))"
  proof -
    have "requests world_1 = []" by (simp add: world_1_def)
    then show ?thesis by (simp only: approve_P1(2)) simp
  qed
  have b: "AvailableBalance (JNum (Fin 150)) \<in> set deduct_N1" by (simp add: deduct_N1_def)
  have c: "never_negative world_1"
    by (simp add: never_negative_def world_1_def partner_N1_def negative_def)
  from a b c show ?thesis
    using approval_never_writes_negative_balance
      [of world_1 env_ok "''P1''" JNull env_ok env_ok turns "''P1''" JNull]
    by blast
qed

section \<open>A notification that fails\<close>

text \<open>
  C7. When the updates of an approval or of a rejection succeed, what happens to the
  notification changes neither the result, which is a success, nor the tables, nor the
  calls made to the store. A notification that throws (or a name \<open>emailService\<close> that is
  not declared) only adds one error line to the console. For a rejection this holds
  whatever the balance and the amount are; for an approval the balance is not below the
  amount and the update of the partner succeeds as well.
\<close>

theorem notifier_failure_is_only_logged:
  assumes "\<not> select_fails E"
    and "payouts w payoutId = Some p"
    and "partners w (partner_id p) = Some q"
    and "status p = Some ''pending''"
    and "payout_update_error E = None"
    and "Ef = E\<lparr>emailService := s\<rparr>"
    and "Es = E\<lparr>emailService := Sends\<rparr>"
  shows "(\<not> num_lt (or_zero (parseFloat (available_balance q))) (parseFloat (amount p))
          \<and> partner_update_error E = None
        \<longrightarrow> fst (approvePayout Ef payoutId adminId w) = fst (approvePayout Es payoutId adminId w)
          \<and> (\<exists>r. fst (approvePayout Ef payoutId adminId w) = Inr r)
          \<and> payouts (snd (approvePayout Ef payoutId adminId w))
              = payouts (snd (approvePayout Es payoutId adminId w))
          \<and> partners (snd (approvePayout Ef payoutId adminId w))
              = partners (snd (approvePayout Es payoutId adminId w))
          \<and> requests (snd (approvePayout Ef payoutId adminId w))
              = requests (snd (approvePayout Es payoutId adminId w))
          \<and> (s = Throws \<or> s = Undeclared \<longrightarrow>
               console (snd (approvePayout Ef payoutId adminId w))
                 = console (snd (approvePayout Es payoutId adminId w))
                   @ [(Err, ''Error sending payout approval email:'')]))
       \<and> fst (rejectPayout Ef payoutId adminId rejectionReason w)
           = fst (rejectPayout Es payoutId adminId rejectionReason w)
       \<and> (\<exists>r. fst (rejectPayout Ef payoutId adminId rejectionReason w) = Inr r)
       \<and> payouts (snd (rejectPayout Ef payoutId adminId rejectionReason w))
           = payouts (snd (rejectPayout Es payoutId adminId rejectionReason w))
       \<and> partners (snd (rejectPayout Ef payoutId adminId rejectionReason w))
           = partners (snd (rejectPayout Es payoutId adminId rejectionReason w))
       \<and> requests (snd (rejectPayout Ef payoutId adminId rejectionReason w))
           = requests (snd (rejectPayout Es payoutId adminId rejectionReason w))
       \<and> (s = Throws \<or> s = Undeclared \<longrightarrow>
            console (snd (rejectPayout Ef payoutId adminId rejectionReason w))
              = console (snd (rejectPayout Es payoutId adminId rejectionReason w))
                @ [(Err, ''Error sending payout rejection email:'')])"
proof -
  note a = approve_email_irrelevant [where E = E and s = s and k = payoutId and a = adminId and w = w]
    approve_email_irrelevant [where E = E and s = Sends and k = payoutId and a = adminId and w = w]
  note r = reject_email_irrelevant
      [where E = E and s = s and k = payoutId and a = adminId and r = rejectionReason and w = w]
    reject_email_irrelevant
      [where E = E and s = Sends and k = payoutId and a = adminId and r = rejectionReason and w = w]
  note rc = reject_console_when_sent [OF assms(1-5)]
  have rl: "console (snd (rejectPayout Ef payoutId adminId rejectionReason w))
          = console (snd (rejectPayout Es payoutId adminId rejectionReason w))
            @ [(Err, ''Error sending payout rejection email:'')]"
    if "s = Throws \<or> s = Undeclared"
    using that rc(1) [where s = s and a = adminId and r = rejectionReason]
      rc(1) [where s = Sends and a = adminId and r = rejectionReason]
    by (auto simp: assms(6,7))
  have reject: "fst (rejectPayout Ef payoutId adminId rejectionReason w)
           = fst (rejectPayout Es payoutId adminId rejectionReason w)
       \<and> (\<exists>r. fst (rejectPayout Ef payoutId adminId rejectionReason w) = Inr r)
       \<and> payouts (snd (rejectPayout Ef payoutId adminId rejectionReason w))
           = payouts (snd (rejectPayout Es payoutId adminId rejectionReason w))
       \<and> partners (snd (rejectPayout Ef payoutId adminId rejectionReason w))
           = partners (snd (rejectPayout Es payoutId adminId rejectionReason w))
       \<and> requests (snd (rejectPayout Ef payoutId adminId rejectionReason w))
           = requests (snd (rejectPayout Es payoutId adminId rejectionReason w))
       \<and> (s = Throws \<or> s = Undeclared \<longrightarrow>
            console (snd (rejectPayout Ef payoutId adminId rejectionReason w))
              = console (snd (rejectPayout Es payoutId adminId rejectionReason w))
                @ [(Err, ''Error sending payout rejection email:'')])"
    using r rl rc(2) [where s = s and a = adminId and r = rejectionReason]
    by (simp add: assms(6,7))
  have approve: "fst (approvePayout Ef payoutId adminId w) = fst (approvePayout Es payoutId adminId w)
          \<and> (\<exists>r. fst (approvePayout Ef payoutId adminId w) = Inr r)
          \<and> payouts (snd (approvePayout Ef payoutId adminId w))
              = payouts (snd (approvePayout Es payoutId adminId w))
          \<and> partners (snd (approvePayout Ef payoutId adminId w))
              = partners (snd (approvePayout Es payoutId adminId w))
          \<and> requests (snd (approvePayout Ef payoutId adminId w))
              = requests (snd (approvePayout Es payoutId adminId w))
          \<and> (s = Throws \<or> s = Undeclared \<longrightarrow>
               console (snd (approvePayout Ef payoutId adminId w))
                 = console (snd (approvePayout Es payoutId adminId w))
                   @ [(Err, ''Error sending payout approval email:'')])"
    if h: "\<not> num_lt (or_zero (parseFloat (available_balance q))) (parseFloat (amount p))"
      "partner_update_error E = None"
  proof -
    note ac = approve_console_when_sent [OF assms(1-4) h(1) assms(5) h(2)]
    have "console (snd (approvePayout Ef payoutId adminId w))
          = console (snd (approvePayout Es payoutId adminId w))
            @ [(Err, ''Error sending payout approval email:'')]"
      if "s = Throws \<or> s = Undeclared"
      using that ac(1) [where s = s and a = adminId] ac(1) [where s = Sends and a = adminId]
      by (auto simp: assms(6,7))
    then show ?thesis
      using a ac(2) [where s = s and a = adminId] by (simp add: assms(6,7))
  qed
  show ?thesis
  proof (rule conjI)
    show "\<not> num_lt (or_zero (parseFloat (available_balance q))) (parseFloat (amount p))
          \<and> partner_update_error E = None
        \<longrightarrow> fst (approvePayout Ef payoutId adminId w) = fst (approvePayout Es payoutId adminId w)
          \<and> (\<exists>r. fst (approvePayout Ef payoutId adminId w) = Inr r)
          \<and> payouts (snd (approvePayout Ef payoutId adminId w))
              = payouts (snd (approvePayout Es payoutId adminId w))
          \<and> partners (snd (approvePayout Ef payoutId adminId w))
              = partners (snd (approvePayout Es payoutId adminId w))
          \<and> requests (snd (approvePayout Ef payoutId adminId w))
              = requests (snd (approvePayout Es payoutId adminId w))
          \<and> (s = Throws \<or> s = Undeclared \<longrightarrow>
               console (snd (approvePayout Ef payoutId adminId w))
                 = console (snd (approvePayout Es payoutId adminId w))
                   @ [(Err, ''Error sending payout approval email:'')])"
    proof (rule impI)
      assume h: "\<not> num_lt (or_zero (parseFloat (available_balance q))) (parseFloat (amount p))
          \<and> partner_update_error E = None"
      from h have h1: "\<not> num_lt (or_zero (parseFloat (available_balance q))) (parseFloat (amount p))"
        by (rule conjunct1)
      from h have h2: "partner_update_error E = None" by (rule conjunct2)
      from h1 h2 show "fst (approvePayout Ef payoutId adminId w) = fst (approvePayout Es payoutId adminId w)
          \<and> (\<exists>r. fst (approvePayout Ef payoutId adminId w) = Inr r)
          \<and> payouts (snd (approvePayout Ef payoutId adminId w))
              = payouts (snd (approvePayout Es payoutId adminId w))
          \<and> partners (snd (approvePayout Ef payoutId adminId w))
              = partners (snd (approvePayout Es payoutId adminId w))
          \<and> requests (snd (approvePayout Ef payoutId adminId w))
              = requests (snd (approvePayout Es payoutId adminId w))
          \<and> (s = Throws \<or> s = Undeclared \<longrightarrow>
               console (snd (approvePayout Ef payoutId adminId w))
                 = console (snd (approvePayout Es payoutId adminId w))
                   @ [(Err, ''Error sending payout approval email:'')])"
        by (rule approve)
    qed
  qed (rule reject)
qed

theorem notifier_failure_is_only_logged_witness:
  "fst (approvePayout (env_ok\<lparr>emailService := Throws\<rparr>) ''P1'' JNull world_1)
     = fst (approvePayout (env_ok\<lparr>emailService := Sends\<rparr>) ''P1'' JNull world_1)
   \<and> console (snd (approvePayout (env_ok\<lparr>emailService := Throws\<rparr>) ''P1'' JNull world_1))
     = console (snd (approvePayout (env_ok\<lparr>emailService := Sends\<rparr>) ''P1'' JNull world_1))
       @ [(Err, ''Error sending payout approval email:'')]
   \<and> num_lt (or_zero (parseFloat (available_balance partner_N1))) (parseFloat (amount payout_P4))
   \<and> fst (rejectPayout (env_ok\<lparr>emailService := Throws\<rparr>) ''P4'' JNull (JStr ''late'') world_4)
     = fst (rejectPayout (env_ok\<lparr>emailService := Sends\<rparr>) ''P4'' JNull (JStr ''late'') world_4)
   \<and> payouts (snd (rejectPayout (env_ok\<lparr>emailService := Throws\<rparr>) ''P4'' JNull (JStr ''late'') world_4))
     = payouts (snd (rejectPayout (env_ok\<lparr>emailService := Sends\<rparr>) ''P4'' JNull (JStr ''late'') world_4))
   \<and> console (snd (rejectPayout (env_ok\<lparr>emailService := Throws\<rparr>) ''P4'' JNull (JStr ''late'') world_4))
     = console (snd (rejectPayout (env_ok\<lparr>emailService := Sends\<rparr>) ''P4'' JNull (JStr ''late'') world_4))
       @ [(Err, ''Error sending payout rejection email:'')]"
proof -
  have h5: "\<not> num_lt (or_zero (parseFloat (available_balance partner_N1)))
              (parseFloat (amount payout_P1))"
    by (simp add: partner_N1_def payout_P1_def)
  have g2: "payouts world_4 ''P4'' = Some payout_P4" by (simp add: world_4_def)
  have g3: "partners world_4 (partner_id payout_P4) = Some partner_N1"
    by (simp add: world_4_def world_1_def payout_P4_def payout_P1_def)
  have g4: "status payout_P4 = Some ''pending''" by (simp add: payout_P4_def payout_P1_def)
  have below: "num_lt (or_zero (parseFloat (available_balance partner_N1)))
                 (parseFloat (amount payout_P4))"
    by (simp add: partner_N1_def payout_P4_def)
  show ?thesis
    using notifier_failure_is_only_logged
        [OF world_1_facts(1-4) world_1_facts(8) refl refl, of Throws JNull "JStr ''late''"]
      notifier_failure_is_only_logged
        [OF world_1_facts(1) g2 g3 g4 world_1_facts(8) refl refl, of Throws JNull "JStr ''late''"]
      h5 world_1_facts(9) below
    by simp
qed

section \<open>Rejecting a pending payout\<close>

text \<open>
  C8, as the code has it. When the fetch finds a pending payout with its partner and the
  update succeeds, \<open>rejectPayout\<close> sets the payout to \<open>rejected\<close> with \<open>rejected_at\<close>,
  \<open>rejected_by\<close> (the admin id, \<open>null\<close> when it is left out) and \<open>rejection_reason\<close>: the
  reason given, or \<open>Rejected by admin\<close> when it is empty or left out. It returns the payout
  id and the reason as it was given (the empty text when it is left out), not the reason
  that it wrote.
\<close>

theorem reject_pending_payout:
  assumes "\<not> select_fails E"
    and "payouts w payoutId = Some p"
    and "partners w (partner_id p) = Some q"
    and "status p = Some ''pending''"
    and "payout_update_error E = None"
    and "given = (if rejectionReason = JUndefined then JStr [] else rejectionReason)"
    and "written = (if truthy given then given else JStr ''Rejected by admin'')"
    and "admin = (if adminId = JUndefined then JNull else adminId)"
  shows "fst (rejectPayout E payoutId adminId rejectionReason w)
           = Inr \<lparr>reject_message = ''Payout rejected successfully'',
                  rejected_payout_id = payoutId,
                  returned_reason = given\<rparr>
       \<and> requests (snd (rejectPayout E payoutId adminId rejectionReason w))
           = requests w @
             [Select payoutId,
              UpdatePayout payoutId
                [Status ''rejected'', RejectedAt (JStr (clock E 0)),
                 RejectedBy admin, RejectionReason written]]
       \<and> payouts (snd (rejectPayout E payoutId adminId rejectionReason w))
           = (payouts w)(payoutId \<mapsto>
               p\<lparr>status := Some ''rejected'', rejected_at := JStr (clock E 0),
                  rejected_by := json_set admin (rejected_by p),
                  rejection_reason := json_set written (rejection_reason p)\<rparr>)
       \<and> partners (snd (rejectPayout E payoutId adminId rejectionReason w)) = partners w
       \<and> (rejectionReason = JUndefined \<or> rejectionReason = JStr []
            \<longrightarrow> given = JStr [] \<and> json_set written (rejection_reason p) = JStr ''Rejected by admin'')
       \<and> (\<forall>s. rejectionReason = JStr s \<and> s \<noteq> []
            \<longrightarrow> given = JStr s \<and> json_set written (rejection_reason p) = JStr s)
       \<and> (\<forall>s. adminId = JStr s \<longrightarrow> json_set admin (rejected_by p) = JStr s)"
  using reject_success [OF assms(1-5), of adminId rejectionReason] assms(6-8)
  by (auto simp: default_empty_def default_null_def reason_or_default_def)

theorem reject_pending_payout_witness:
  "fst (rejectPayout env_ok ''P1'' (JStr ''admin-7'') (JStr ''late'') world_1)
     = Inr \<lparr>reject_message = ''Payout rejected successfully'', rejected_payout_id = ''P1'',
            returned_reason = JStr ''late''\<rparr>
   \<and> map_option status
        (payouts (snd (rejectPayout env_ok ''P1'' (JStr ''admin-7'') (JStr ''late'') world_1)) ''P1'')
     = Some (Some ''rejected'')
   \<and> map_option rejected_by
        (payouts (snd (rejectPayout env_ok ''P1'' (JStr ''admin-7'') (JStr ''late'') world_1)) ''P1'')
     = Some (JStr ''admin-7'')
   \<and> map_option rejection_reason
        (payouts (snd (rejectPayout env_ok ''P1'' (JStr ''admin-7'') (JStr ''late'') world_1)) ''P1'')
     = Some (JStr ''late'')"
  using reject_pending_payout
    [where adminId = "JStr ''admin-7''" and rejectionReason = "JStr ''late''",
     OF world_1_facts(1-4) world_1_facts(8) refl refl refl]
  by simp

text \<open>
  With the empty reason the payout gets the reason \<open>Rejected by admin\<close>, and the reason
  returned is the empty text.
\<close>

theorem reject_returns_given_reason_counterexample:
  "fst (rejectPayout env_ok ''P1'' (JStr ''admin-7'') (JStr []) world_1)
     = Inr \<lparr>reject_message = ''Payout rejected successfully'', rejected_payout_id = ''P1'',
            returned_reason = JStr []\<rparr>
   \<and> map_option rejection_reason
        (payouts (snd (rejectPayout env_ok ''P1'' (JStr ''admin-7'') (JStr []) world_1)) ''P1'')
     = Some (JStr ''Rejected by admin'')
   \<and> JStr [] \<noteq> JStr ''Rejected by admin''"
  using reject_success [OF world_1_facts(1-4) world_1_facts(8), of "JStr ''admin-7''" "JStr []"]
  by (simp add: default_empty_def default_null_def reason_or_default_def)

section \<open>The approve endpoint\<close>

text \<open>
  C9. When no global is named \<open>adminId\<close>, the handler of the approve endpoint answers
  every request with status 400 and \<open>success: false\<close>, and never reaches the service: the
  store is not called. For a payout id that is not empty the error is the
  \<open>ReferenceError\<close> of the name \<open>adminId\<close>.
\<close>

theorem approve_endpoint_always_fails:
  assumes "globals ''adminId'' = None"
  shows "status_code (fst (approvePayout_controller globals E params_payoutId w)) = 400
       \<and> \<not> success (body (fst (approvePayout_controller globals E params_payoutId w)))
       \<and> requests (snd (approvePayout_controller globals E params_payoutId w)) = requests w
       \<and> payouts (snd (approvePayout_controller globals E params_payoutId w)) = payouts w
       \<and> partners (snd (approvePayout_controller globals E params_payoutId w)) = partners w
       \<and> (\<forall>k. params_payoutId = Some k \<and> k \<noteq> []
            \<longrightarrow> body (fst (approvePayout_controller globals E params_payoutId w))
                  = Failure ''adminId is not defined'')"
  using assms
  by (auto simp: approvePayout_controller_def bad_request_def split: option.splits)

theorem approve_endpoint_always_fails_witness:
  "Map.empty ''adminId'' = (None :: jsval option)
   \<and> fst (approvePayout_controller Map.empty env_ok (Some ''P1'') world_1)
     = \<lparr>status_code = 400, body = Failure ''adminId is not defined''\<rparr>
   \<and> requests (snd (approvePayout_controller Map.empty env_ok (Some ''P1'') world_1)) = []"
proof -
  have e: "Map.empty ''adminId'' = (None :: jsval option)" by simp
  have r: "requests world_1 = []" by (simp add: world_1_def)
  have "response.more (fst (approvePayout_controller Map.empty env_ok (Some ''P1'') world_1)) = ()"
    by simp
  then show ?thesis
    using approve_endpoint_always_fails [OF e, of env_ok "Some ''P1''" world_1] r
    by (cases "fst (approvePayout_controller Map.empty env_ok (Some ''P1'') world_1)") simp
qed

section \<open>A balance that is not a number\<close>

text \<open>
  C10, as the code has it. When the available balance of the partner is missing or
  \<open>null\<close>, or \<open>parseFloat\<close> finds no number in it (a text that is empty or, after its white
  space, starts with no sign, digit, point or \<open>I\<close>), the balance counts as 0: for a pending
  payout with an amount above 0, \<open>approvePayout\<close> throws the error
  \<open>Insufficient partner balance\<close> with \<open>Available: $0.00\<close>, and the only call to the store is
  the fetch. A text that starts with a numeral counts as that numeral.
\<close>

theorem missing_balance_counts_as_zero:
  assumes "\<not> select_fails E"
    and "payouts w payoutId = Some p"
    and "partners w (partner_id p) = Some q"
    and "status p = Some ''pending''"
    and "available_balance q = JUndefined \<or> available_balance q = JNull
         \<or> (\<exists>s. available_balance q = JStr s
                \<and> (dropWhile is_space s = []
                    \<or> hd (dropWhile is_space s) \<notin> set ''+-.0123456789I''))
         \<or> parseFloat (available_balance q) = NaN"
    and "num_lt (Fin 0) (parseFloat (amount p))"
  shows "or_zero (parseFloat (available_balance q)) = Fin 0
       \<and> fst (approvePayout E payoutId adminId w)
           = Inl (Error (''Insufficient partner balance. Available: $0.00, Required: $''
                          @ toFixed2 (parseFloat (amount p))))
       \<and> requests (snd (approvePayout E payoutId adminId w)) = requests w @ [Select payoutId]
       \<and> payouts (snd (approvePayout E payoutId adminId w)) = payouts w
       \<and> partners (snd (approvePayout E payoutId adminId w)) = partners w"
proof -
  have "parseFloat (available_balance q) = NaN"
    using assms(5) parse_no_numeral by auto
  then have z: "or_zero (parseFloat (available_balance q)) = Fin 0" by simp
  then have "num_lt (or_zero (parseFloat (available_balance q))) (parseFloat (amount p))"
    using assms(6) by simp
  then show ?thesis
    using assms(1-4) z by (simp add: approvePayout_def approve_fetch_insufficient fixed2_0)
qed

theorem missing_balance_counts_as_zero_witness:
  "fst (approvePayout env_ok ''P1'' JNull world_5)
     = Inl (Error ''Insufficient partner balance. Available: $0.00, Required: $100.00'')
   \<and> requests (snd (approvePayout env_ok ''P1'' JNull world_5)) = [Select ''P1'']
   \<and> fst (approvePayout env_ok ''P1'' JNull world_10)
     = Inl (Error ''Insufficient partner balance. Available: $0.00, Required: $100.00'')
   \<and> requests (snd (approvePayout env_ok ''P1'' JNull world_10)) = [Select ''P1'']"
proof -
  have h1: "\<not> select_fails env_ok" by (simp add: env_ok_def)
  have h2: "payouts world_5 ''P1'' = Some payout_P1" by (simp add: world_5_def world_1_def)
  have h3: "partners world_5 (partner_id payout_P1) = Some partner_N5"
    by (simp add: world_5_def payout_P1_def)
  have h4: "status payout_P1 = Some ''pending''" by (simp add: payout_P1_def)
  have h5: "available_balance partner_N5 = JUndefined \<or> available_balance partner_N5 = JNull
         \<or> (\<exists>s. available_balance partner_N5 = JStr s
                \<and> (dropWhile is_space s = []
                    \<or> hd (dropWhile is_space s) \<notin> set ''+-.0123456789I''))
         \<or> parseFloat (available_balance partner_N5) = NaN"
    by (simp add: partner_N5_def)
  have h6: "num_lt (Fin 0) (parseFloat (amount payout_P1))" by (simp add: payout_P1_def)
  have g2: "payouts world_10 ''P1'' = Some payout_P1" by (simp add: world_10_def world_1_def)
  have g3: "partners world_10 (partner_id payout_P1) = Some partner_N10"
    by (simp add: world_10_def payout_P1_def)
  have "dropWhile is_space ''n/a'' = ''n/a''" by (simp add: is_space_def)
  then have g5: "available_balance partner_N10 = JUndefined \<or> available_balance partner_N10 = JNull
         \<or> (\<exists>s. available_balance partner_N10 = JStr s
                \<and> (dropWhile is_space s = []
                    \<or> hd (dropWhile is_space s) \<notin> set ''+-.0123456789I''))
         \<or> parseFloat (available_balance partner_N10) = NaN"
    by (simp add: partner_N10_def)
  have a: "parseFloat (amount payout_P1) = Fin 100" by (simp add: payout_P1_def)
  have r: "requests world_5 = []" "requests world_10 = []"
    by (simp_all add: world_5_def world_10_def world_1_def)
  show ?thesis
    using missing_balance_counts_as_zero [OF h1 h2 h3 h4 h5 h6, of JNull]
      missing_balance_counts_as_zero [OF h1 g2 g3 h4 g5 h6, of JNull] r
    by (simp add: a fixed2_100)
qed

text \<open>
  With the balance \<open>120abc\<close>, which is no number, \<open>parseFloat\<close> reads 120: the payout of
  100 is approved and the balance 20 is written. And when the payout is not pending, the
  error is that of its status, whatever the balance is.
\<close>

theorem text_balance_with_numeral_counterexample:
  "available_balance partner_N8 = JStr ''120abc''
   \<and> num_lt (Fin 0) (parseFloat (amount payout_P1))
   \<and> fst (approvePayout env_ok ''P1'' JNull world_8)
     = Inr \<lparr>message = ''Payout approved successfully'', payout_id = ''P1'',
            amount_paid = Fin 100, partner_name = JStr ''Acme Travel'',
            previous_balance = Fin 120, new_balance = Fin 20\<rparr>
   \<and> map_option available_balance (partners (snd (approvePayout env_ok ''P1'' JNull world_8)) ''N1'')
     = Some (JNum (Fin 20))
   \<and> available_balance partner_N5 = JNull
   \<and> fst (approvePayout env_ok ''P2'' JNull world_9)
     = Inl (Error ''Cannot approve payout with status: approved'')"
proof -
  have h1: "\<not> select_fails env_ok" by (simp add: env_ok_def)
  have h2: "payouts world_8 ''P1'' = Some payout_P1" by (simp add: world_8_def world_1_def)
  have h3: "partners world_8 (partner_id payout_P1) = Some partner_N8"
    by (simp add: world_8_def payout_P1_def)
  have h4: "status payout_P1 = Some ''pending''" by (simp add: payout_P1_def)
  have h5: "Fin 120 = or_zero (parseFloat (available_balance partner_N8))"
    by (simp add: partner_N8_def parse_120abc)
  have h6: "Fin 100 = parseFloat (amount payout_P1)" by (simp add: payout_P1_def)
  have h7: "\<not> num_lt (Fin 120) (Fin 100)" by simp
  have h8: "payout_update_error env_ok = None" "partner_update_error env_ok = None"
    by (simp_all add: env_ok_def)
  have n: "partner_id payout_P1 = ''N1''" "business_name partner_N8 = JStr ''Acme Travel''"
    by (simp_all add: payout_P1_def partner_N8_def partner_N1_def)
  have g2: "payouts world_9 ''P2'' = Some payout_P2" by (simp add: world_9_def)
  have g3: "partners world_9 (partner_id payout_P2) = Some partner_N5"
    by (simp add: world_9_def payout_P2_def payout_P1_def)
  have g4: "status payout_P2 \<noteq> Some ''pending''" by (simp add: payout_P2_def)
  have s: "status payout_P2 = Some ''approved''" by (simp add: payout_P2_def)
  have two: "fst (approvePayout env_ok ''P2'' JNull world_9)
     = Inl (Error ''Cannot approve payout with status: approved'')"
    using approve_fetch_not_pending [OF h1 g2 g3 g4, of JNull]
    by (simp add: approvePayout_def s)
  have b: "available_balance partner_N8 = JStr ''120abc''" "available_balance partner_N5 = JNull"
    by (simp_all add: partner_N8_def partner_N5_def)
  have a: "num_lt (Fin 0) (parseFloat (amount payout_P1))" by (simp add: payout_P1_def)
  show ?thesis
    using approve_success [OF h1 h2 h3 h4 h5 h6 h7 h8, of JNull] two a
    by (simp add: n b fl_20)
qed

end
